theory Spec2Isabelle
  imports Complex_Main "HOL-Library.AList"
begin

section \<open>Character content (cogs/character\_loader.py)\<close>

text \<open>
  A Python \<open>dict\<close> is an association list in insertion order: \<open>map_of\<close> is the lookup,
  \<open>AList.update\<close> the assignment \<open>d[k] = v\<close> (an existing key keeps its place, a new one
  goes to the end) and \<open>AList.delete\<close> the statement \<open>del d[k]\<close>. A key of a YAML mapping
  that may be absent is an \<open>option\<close> field: \<open>None\<close> is "key not in the dict". A
  character of a string is a code point below 256.
\<close>

text \<open>The exceptions that the modelled code can raise.\<close>

datatype py_error = TypeError | ValueError | AttributeError

record choice_data =
  choice_text :: "string option"
  choice_score :: "int option"
  choice_outcome :: "string option"
  choice_lesson :: "string option"

record decision =
  d_year :: "int option"
  d_context :: "string option"
  d_question :: "string option"
  d_choices :: "(string \<times> choice_data) list option"
  d_correct_choice :: "string option"
  d_historical_context :: "string option"

record template =
  t_text :: "string option"
  t_principles :: "string list option"

text \<open>The keys of the \<open>decisions\<close> mapping of a YAML file are integers or strings.\<close>

datatype dkey = IntKey int | StrKey string

text \<open>
  The parsed YAML document of one character file. The value of \<open>analysis_templates\<close> may
  be a YAML null, which Python reads as \<open>None\<close>: the field is \<open>None\<close> when the key is
  absent, \<open>Some None\<close> when it is present and null, and \<open>Some (Some ts)\<close> for a mapping.
\<close>

record character_data =
  data_name :: "string option"
  data_title :: "string option"
  data_starting_year :: "int option"
  data_initial_capital :: "int option"
  data_key_principles :: "string list option"
  data_decisions :: "(dkey \<times> decision) list option"
  data_analysis_templates :: "(string \<times> template) list option option"

text \<open>
  A \<open>Character\<close> object. Its \<open>analysis_templates\<close> is the dict of the document, or
  Python's \<open>None\<close> when the document has a null there.
\<close>

record character =
  char_id :: string
  char_name :: string
  char_title :: string
  starting_year :: int
  initial_capital :: int
  key_principles :: "string list"
  decisions :: "(dkey \<times> decision) list"
  analysis_templates :: "(string \<times> template) list option"
  sorted_decisions :: "(dkey \<times> decision) list"

text \<open>
  \<open>str.isdigit()\<close> holds of a non-empty string of digit characters. Below code point
  256 these are the decimal digits 0 to 9 and the superscript digits U+00B2, U+00B3
  and U+00B9. \<open>int()\<close> reads decimal digits only and raises \<open>ValueError\<close> on a superscript
  digit. (The interpreter's limit on the length of a decimal string is not modelled.)
\<close>

definition is_decimal_char :: "char \<Rightarrow> bool" where
  "is_decimal_char c = (48 \<le> (of_char c :: nat) \<and> (of_char c :: nat) \<le> 57)"

definition is_digit_char :: "char \<Rightarrow> bool" where
  "is_digit_char c =
     (is_decimal_char c \<or> (of_char c :: nat) = 178 \<or> (of_char c :: nat) = 179 \<or>
      (of_char c :: nat) = 185)"

definition str_isdigit :: "string \<Rightarrow> bool" where
  "str_isdigit s = (s \<noteq> [] \<and> list_all is_digit_char s)"

definition int_of_digits :: "string \<Rightarrow> int" where
  "int_of_digits s = foldl (\<lambda>n c. 10 * n + (int (of_char c) - 48)) 0 s"

definition int_of_str :: "string \<Rightarrow> py_error + int" where
  "int_of_str s =
     (if s \<noteq> [] \<and> list_all is_decimal_char s then Inr (int_of_digits s) else Inl ValueError)"

text \<open>
  The sort key of \<open>Character.__init__\<close>:
  \<^verbatim>\<open>int(x[0]) if isinstance(x[0], (int, str)) and str(x[0]).isdigit() else 0\<close>.
  The decimal text of an integer has digits only exactly when the integer is not
  negative.
\<close>

fun decision_sort_key :: "dkey \<times> decision \<Rightarrow> py_error + int" where
  "decision_sort_key (IntKey n, d) = Inr (if 0 \<le> n then n else 0)"
| "decision_sort_key (StrKey s, d) = (if str_isdigit s then int_of_str s else Inr 0)"

text \<open>
  \<open>sorted\<close> first computes the key of every item, in order, and the first exception
  ends it; then it sorts the items by their keys, stably, as \<open>sort_key\<close> does.
\<close>

fun keyed_items ::
  "(dkey \<times> decision) list \<Rightarrow> py_error + (int \<times> (dkey \<times> decision)) list" where
  "keyed_items [] = Inr []"
| "keyed_items (item # rest) =
     (case decision_sort_key item of
        Inl e \<Rightarrow> Inl e
      | Inr k \<Rightarrow>
          (case keyed_items rest of
             Inl e \<Rightarrow> Inl e
           | Inr keyed \<Rightarrow> Inr ((k, item) # keyed)))"

text \<open>
  \<open>Character.__init__\<close>: every \<open>data.get(field, default)\<close>, then the decisions sorted
  by key. The constructor raises what the sort key raises.
\<close>

definition Character :: "string \<Rightarrow> character_data \<Rightarrow> py_error + character" where
  "Character character_id data =
     (let ds = (case data_decisions data of None \<Rightarrow> [] | Some ds \<Rightarrow> ds) in
      case keyed_items ds of
        Inl e \<Rightarrow> Inl e
      | Inr keyed \<Rightarrow> Inr
      \<lparr> char_id = character_id,
        char_name = (case data_name data of None \<Rightarrow> ''Unknown'' | Some n \<Rightarrow> n),
        char_title = (case data_title data of None \<Rightarrow> '''' | Some t \<Rightarrow> t),
        starting_year = (case data_starting_year data of None \<Rightarrow> 0 | Some y \<Rightarrow> y),
        initial_capital = (case data_initial_capital data of None \<Rightarrow> 0 | Some c \<Rightarrow> c),
        key_principles = (case data_key_principles data of None \<Rightarrow> [] | Some ps \<Rightarrow> ps),
        decisions = ds,
        analysis_templates =
          (case data_analysis_templates data of None \<Rightarrow> Some [] | Some v \<Rightarrow> v),
        sorted_decisions = map snd (sort_key fst keyed) \<rparr>)"

definition get_decision :: "character \<Rightarrow> int \<Rightarrow> decision option" where
  "get_decision c number =
     (if number \<le> 0 \<or> number > int (length (sorted_decisions c)) then None
      else Some (snd (sorted_decisions c ! nat (number - 1))))"

definition get_total_decisions :: "character \<Rightarrow> int" where
  "get_total_decisions c = int (length (sorted_decisions c))"

definition get_choice_score :: "character \<Rightarrow> int \<Rightarrow> string \<Rightarrow> int" where
  "get_choice_score c decision_number choice =
     (case get_decision c decision_number of
        None \<Rightarrow> 0
      | Some d \<Rightarrow>
          (case d_choices d of
             None \<Rightarrow> 0
           | Some choices \<Rightarrow>
               (case map_of choices choice of
                  None \<Rightarrow> 0
                | Some cd \<Rightarrow> (case choice_score cd of None \<Rightarrow> 0 | Some s \<Rightarrow> s))))"

definition is_correct_choice :: "character \<Rightarrow> int \<Rightarrow> string \<Rightarrow> bool" where
  "is_correct_choice c decision_number choice =
     (case get_decision c decision_number of
        None \<Rightarrow> False
      | Some d \<Rightarrow>
          (case d_correct_choice d of None \<Rightarrow> False | Some cc \<Rightarrow> cc = choice))"

section \<open>Game sessions (cogs/game\_manager.py, class GameSession)\<close>

text \<open>
  A \<open>datetime\<close> is its count of microseconds, an integer. \<open>datetime.now()\<close> and
  \<open>uuid.uuid4()\<close> read the environment: the models take the clock reading \<open>now\<close> and
  the fresh identifier as arguments.
\<close>

record game_session =
  session_id :: string
  user_id :: int
  character :: character
  game_id :: int
  channel_id :: int
  current_decision :: int
  total_score :: int
  decisions_made :: "(int \<times> string) list"
  last_activity :: int
  message_id :: "int option"

definition GameSession ::
  "string \<Rightarrow> int \<Rightarrow> int \<Rightarrow> character \<Rightarrow> int \<Rightarrow> int \<Rightarrow> game_session" where
  "GameSession new_id now uid ch gid chan =
     \<lparr> session_id = new_id, user_id = uid, character = ch, game_id = gid,
       channel_id = chan, current_decision = 1, total_score = 0,
       decisions_made = [], last_activity = now, message_id = None \<rparr>"

text \<open>\<open>GameSession.make_decision\<close>: the returned score and the session afterwards.\<close>

definition GameSession_make_decision ::
  "int \<Rightarrow> game_session \<Rightarrow> int \<Rightarrow> string \<Rightarrow> int \<times> game_session" where
  "GameSession_make_decision now s decision_number choice =
     (if decision_number \<noteq> current_decision s then (0, s)
      else
        let score = get_choice_score (character s) decision_number choice in
        (score,
         s\<lparr> decisions_made := AList.update decision_number choice (decisions_made s),
            total_score := total_score s + score,
            current_decision := current_decision s + 1,
            last_activity := now \<rparr>))"

definition is_completed :: "game_session \<Rightarrow> bool" where
  "is_completed s = (current_decision s > get_total_decisions (character s))"

section \<open>The durable store (cogs/database.py)\<close>

text \<open>
  Each table is the list of its rows; the tables with an integer primary key that the
  code selects by are association lists on that key. \<open>INSERT\<close> appends a row and
  \<open>UPDATE ... WHERE\<close> rewrites the matching rows in place. The schema's uniqueness
  constraints are not modelled: session identifiers are fresh \<open>uuid4\<close> values and game
  identifiers come from the \<open>AUTOINCREMENT\<close> counter \<open>db_game_seq\<close>.
  \<open>db_completed_log\<close> holds the lines \<open>Completed game {game_id} with total score
  {total_score}\<close> that \<open>complete_game\<close> writes to the logger, one per call.
\<close>

record user_row =
  u_username :: string
  u_games_played :: int
  u_total_score :: int
  u_last_played :: int

record game_row =
  g_user_id :: int
  g_character_id :: string
  g_total_score :: int
  g_timestamp :: int
  g_completed :: bool

record decision_row =
  dec_game_id :: int
  dec_decision_number :: int
  dec_choice_made :: string
  dec_score :: int
  dec_timestamp :: int

record feedback_row =
  fb_game_id :: int
  fb_rating :: int
  fb_comments :: "string option"
  fb_timestamp :: int

record session_row =
  as_session_id :: string
  as_user_id :: int
  as_game_id :: int
  as_channel_id :: int
  as_last_activity :: int

record database =
  db_users :: "(int \<times> user_row) list"
  db_games :: "(int \<times> game_row) list"
  db_game_seq :: int
  db_decisions :: "decision_row list"
  db_feedback :: "feedback_row list"
  db_active_sessions :: "session_row list"
  db_completed_log :: "(int \<times> int) list"

definition update_where :: "'k \<Rightarrow> ('v \<Rightarrow> 'v) \<Rightarrow> ('k \<times> 'v) list \<Rightarrow> ('k \<times> 'v) list" where
  "update_where k f rows = map (\<lambda>(k', r). if k' = k then (k', f r) else (k', r)) rows"

definition get_or_create_user :: "int \<Rightarrow> database \<Rightarrow> int \<Rightarrow> string \<Rightarrow> database" where
  "get_or_create_user now db uid username =
     (case map_of (db_users db) uid of
        Some u \<Rightarrow> db
      | None \<Rightarrow>
          db\<lparr> db_users := db_users db @
                [(uid, \<lparr> u_username = username, u_games_played = 0,
                         u_total_score = 0, u_last_played = now \<rparr>)] \<rparr>)"

definition create_game :: "int \<Rightarrow> database \<Rightarrow> int \<Rightarrow> string \<Rightarrow> int \<times> database" where
  "create_game now db uid cid =
     (let users1 = update_where uid (\<lambda>u. u\<lparr> u_last_played := now \<rparr>) (db_users db);
          gid = db_game_seq db + 1;
          games1 = db_games db @
                [(gid, \<lparr> g_user_id = uid, g_character_id = cid, g_total_score = 0,
                         g_timestamp = now, g_completed = False \<rparr>)];
          users2 = update_where uid (\<lambda>u. u\<lparr> u_games_played := u_games_played u + 1 \<rparr>) users1
      in (gid, db\<lparr> db_users := users2, db_games := games1, db_game_seq := gid \<rparr>))"

definition create_session ::
  "int \<Rightarrow> database \<Rightarrow> string \<Rightarrow> int \<Rightarrow> int \<Rightarrow> int \<Rightarrow> database" where
  "create_session now db sid uid gid chan =
     db\<lparr> db_active_sessions :=
           filter (\<lambda>r. as_user_id r \<noteq> uid) (db_active_sessions db) @
           [\<lparr> as_session_id = sid, as_user_id = uid, as_game_id = gid,
              as_channel_id = chan, as_last_activity = now \<rparr>] \<rparr>"

definition update_session_activity :: "int \<Rightarrow> database \<Rightarrow> string \<Rightarrow> database" where
  "update_session_activity now db sid =
     db\<lparr> db_active_sessions :=
           map (\<lambda>r. if as_session_id r = sid then r\<lparr> as_last_activity := now \<rparr> else r)
             (db_active_sessions db) \<rparr>"

definition end_session :: "database \<Rightarrow> string \<Rightarrow> database" where
  "end_session db sid =
     db\<lparr> db_active_sessions :=
           filter (\<lambda>r. as_session_id r \<noteq> sid) (db_active_sessions db) \<rparr>"

definition record_decision ::
  "int \<Rightarrow> database \<Rightarrow> int \<Rightarrow> int \<Rightarrow> string \<Rightarrow> int \<Rightarrow> database" where
  "record_decision now db gid decision_number choice score =
     db\<lparr> db_decisions := db_decisions db @
           [\<lparr> dec_game_id = gid, dec_decision_number = decision_number,
              dec_choice_made = choice, dec_score = score, dec_timestamp = now \<rparr>],
         db_games :=
           update_where gid (\<lambda>g. g\<lparr> g_total_score := g_total_score g + score \<rparr>)
             (db_games db) \<rparr>"

text \<open>
  \<open>complete_game\<close>: \<open>fetchone()\<close> is \<open>None\<close> when no game has the identifier, and the
  subscript \<open>game['total_score']\<close> then raises \<open>TypeError\<close> before anything is written.
\<close>

definition complete_game :: "database \<Rightarrow> int \<Rightarrow> py_error + (int \<times> database)" where
  "complete_game db gid =
     (case map_of (db_games db) gid of
        None \<Rightarrow> Inl TypeError
      | Some game \<Rightarrow>
          Inr (g_total_score game,
               db\<lparr> db_games := update_where gid (\<lambda>g. g\<lparr> g_completed := True \<rparr>) (db_games db),
                   db_users :=
                     update_where (g_user_id game)
                       (\<lambda>u. u\<lparr> u_total_score := u_total_score u + g_total_score game \<rparr>)
                       (db_users db),
                   db_completed_log :=
                     db_completed_log db @ [(gid, g_total_score game)] \<rparr>))"

definition Database_record_feedback ::
  "int \<Rightarrow> database \<Rightarrow> int \<Rightarrow> int \<Rightarrow> string option \<Rightarrow> database" where
  "Database_record_feedback now db gid rating comments =
     db\<lparr> db_feedback := db_feedback db @
           [\<lparr> fb_game_id = gid, fb_rating = rating, fb_comments = comments,
              fb_timestamp = now \<rparr>] \<rparr>"

section \<open>The game manager (cogs/game\_manager.py, class GameManager)\<close>

text \<open>
  The manager reaches its collaborators through the bot: \<open>bot.get_cog\<close> gives the
  character loader (its \<open>characters\<close> dict) and the database, or \<open>None\<close> when the cog
  is not loaded; \<open>bot.get_user\<close> gives a Discord user or \<open>None\<close>. Sending a direct
  message succeeds, raises \<open>discord.errors.Forbidden\<close>, or raises something else.
  \<open>sent_messages\<close> lists the users \<open>user.send\<close> was called for. One operation reads the
  clock once.
\<close>

datatype send_outcome = Delivered | Forbidden | SendFailed

record discord_user =
  du_name :: string
  du_send :: send_outcome

record bot =
  cog_CharacterLoader :: "(string \<times> character) list option"
  cog_Database :: "database option"
  discord_users :: "(int \<times> discord_user) list"
  active_sessions :: "(string \<times> game_session) list"
  user_sessions :: "(int \<times> string) list"
  sent_messages :: "int list"

definition GAME_TIMEOUT :: int where
  "GAME_TIMEOUT = 300"

definition end_game_session :: "bot \<Rightarrow> string \<Rightarrow> bool \<Rightarrow> (py_error + unit) \<times> bot" where
  "end_game_session st sid completed =
     (case map_of (active_sessions st) sid of
        None \<Rightarrow> (Inr (), st)
      | Some session \<Rightarrow>
          (case cog_Database st of
             None \<Rightarrow> (Inr (), st)
           | Some db \<Rightarrow>
               (case (if completed \<and> \<not> is_completed session
                      then complete_game db (game_id session) else Inr (0, db)) of
                  Inl e \<Rightarrow> (Inl e, st)
                | Inr (final, db1) \<Rightarrow>
                    (Inr (),
                     st\<lparr> cog_Database := Some (end_session db1 sid),
                         user_sessions :=
                           (if map_of (user_sessions st) (user_id session) = Some sid
                            then AList.delete (user_id session) (user_sessions st)
                            else user_sessions st),
                         active_sessions := AList.delete sid (active_sessions st) \<rparr>))))"

definition create_game_session ::
  "string \<Rightarrow> int \<Rightarrow> bot \<Rightarrow> int \<Rightarrow> string \<Rightarrow> int \<Rightarrow> game_session option \<times> bot" where
  "create_game_session new_id now st uid cid chan =
     (case cog_CharacterLoader st of
        None \<Rightarrow> (None, st)
      | Some chars \<Rightarrow>
          (case map_of chars cid of
             None \<Rightarrow> (None, st)
           | Some ch \<Rightarrow>
               (case cog_Database st of
                  None \<Rightarrow> (None, st)
                | Some db \<Rightarrow>
                    let username = (case map_of (discord_users st) uid of
                                      None \<Rightarrow> ''Unknown'' | Some u \<Rightarrow> du_name u);
                        db1 = get_or_create_user now db uid username;
                        (gid, db2) = create_game now db1 uid cid;
                        session = GameSession new_id now uid ch gid chan;
                        st1 = st\<lparr> cog_Database := Some db2,
                                 active_sessions :=
                                   AList.update new_id session (active_sessions st) \<rparr>;
                        st2 = (case map_of (user_sessions st1) uid of
                                 None \<Rightarrow> st1
                               | Some old_session_id \<Rightarrow>
                                   (case map_of (active_sessions st1) old_session_id of
                                      None \<Rightarrow> st1
                                    | Some old \<Rightarrow>
                                        snd (end_game_session st1 old_session_id False)));
                        st3 = st2\<lparr> user_sessions :=
                                    AList.update uid new_id (user_sessions st2) \<rparr>
                    in (Some session,
                        st3\<lparr> cog_Database :=
                               map_option (\<lambda>d. create_session now d new_id uid gid chan)
                                 (cog_Database st3) \<rparr>))))"

definition get_user_session :: "bot \<Rightarrow> int \<Rightarrow> game_session option \<times> bot" where
  "get_user_session st uid =
     (case map_of (user_sessions st) uid of
        None \<Rightarrow> (None, st)
      | Some sid \<Rightarrow>
          (case map_of (active_sessions st) sid of
             None \<Rightarrow> (None, st\<lparr> user_sessions := AList.delete uid (user_sessions st) \<rparr>)
           | Some session \<Rightarrow> (Some session, st)))"

text \<open>
  \<open>GameManager.make_decision\<close>. The session object is changed in place, so the changed
  session is written back under its key. The decision number handed to the session is
  \<open>session.current_decision - 1\<close>, as in the source.
\<close>

definition GameManager_make_decision ::
  "int \<Rightarrow> bot \<Rightarrow> string \<Rightarrow> string \<Rightarrow> (py_error + (int \<times> bool)) \<times> bot" where
  "GameManager_make_decision now st sid choice =
     (case map_of (active_sessions st) sid of
        None \<Rightarrow> (Inr (0, False), st)
      | Some session \<Rightarrow>
          (case cog_Database st of
             None \<Rightarrow> (Inr (0, False), st)
           | Some db \<Rightarrow>
               let (score, session1) =
                     GameSession_make_decision now session (current_decision session - 1) choice;
                   st1 = st\<lparr> active_sessions :=
                              AList.update sid session1 (active_sessions st) \<rparr>;
                   db1 = record_decision now db (game_id session1)
                           (current_decision session1 - 1) choice score;
                   db2 = update_session_activity now db1 sid
               in if is_completed session1
                  then (case complete_game db2 (game_id session1) of
                          Inl e \<Rightarrow> (Inl e, st1\<lparr> cog_Database := Some db2 \<rparr>)
                        | Inr (final, db3) \<Rightarrow>
                            (Inr (score, True), st1\<lparr> cog_Database := Some db3 \<rparr>))
                  else (Inr (score, False), st1\<lparr> cog_Database := Some db2 \<rparr>)))"

definition GameManager_record_feedback ::
  "int \<Rightarrow> bot \<Rightarrow> string \<Rightarrow> int \<Rightarrow> string option \<Rightarrow> bool \<times> bot" where
  "GameManager_record_feedback now st sid rating comments =
     (case map_of (active_sessions st) sid of
        None \<Rightarrow> (False, st)
      | Some session \<Rightarrow>
          (case cog_Database st of
             None \<Rightarrow> (False, st)
           | Some db \<Rightarrow>
               (True,
                st\<lparr> cog_Database :=
                      Some (Database_record_feedback now db (game_id session) rating comments) \<rparr>)))"

text \<open>
  \<open>GameManager.cleanup_old_sessions\<close>: the identifiers of the sessions idle for more than
  \<open>GAME_TIMEOUT\<close> seconds are collected first, then each is ended. An exception inside
  the loop, other than \<open>Forbidden\<close> from \<open>user.send\<close>, leaves the loop for the outer
  \<open>except Exception\<close>, which only logs it.
\<close>

definition inactive :: "int \<Rightarrow> game_session \<Rightarrow> bool" where
  "inactive now s = (now - last_activity s > GAME_TIMEOUT * 1000000)"

fun cleanup_loop :: "string list \<Rightarrow> bot \<Rightarrow> bot" where
  "cleanup_loop [] st = st"
| "cleanup_loop (sid # rest) st =
     (case end_game_session st sid False of
        (Inl e, st1) \<Rightarrow> st1
      | (Inr u, st1) \<Rightarrow>
          (case map_of (active_sessions st1) sid of
             None \<Rightarrow> cleanup_loop rest st1
           | Some session \<Rightarrow>
               (case map_of (discord_users st1) (user_id session) of
                  None \<Rightarrow> cleanup_loop rest st1
                | Some user \<Rightarrow>
                    let st2 = st1\<lparr> sent_messages := sent_messages st1 @ [user_id session] \<rparr>
                    in (case du_send user of
                          Delivered \<Rightarrow> cleanup_loop rest st2
                        | Forbidden \<Rightarrow> cleanup_loop rest st2
                        | SendFailed \<Rightarrow> st2))))"

definition cleanup_old_sessions :: "int \<Rightarrow> bot \<Rightarrow> bot" where
  "cleanup_old_sessions now st =
     cleanup_loop
       (map fst (filter (\<lambda>(sid, session). inactive now session) (active_sessions st))) st"

section \<open>Loading and validating characters (class CharacterLoader, config.py)\<close>

definition REQUIRED_CHARACTER_FIELDS :: "string list" where
  "REQUIRED_CHARACTER_FIELDS =
     [''name'', ''title'', ''starting_year'', ''initial_capital'',
      ''key_principles'', ''decisions'', ''analysis_templates'']"

definition REQUIRED_DECISION_FIELDS :: "string list" where
  "REQUIRED_DECISION_FIELDS = [''year'', ''context'', ''question'', ''choices'', ''correct_choice'']"

text \<open>\<open>field in data\<close> and \<open>field in decision\<close>, for the keys the typed documents have.\<close>

definition data_has_field :: "character_data \<Rightarrow> string \<Rightarrow> bool" where
  "data_has_field data field =
     (if field = ''name'' then data_name data \<noteq> None
      else if field = ''title'' then data_title data \<noteq> None
      else if field = ''starting_year'' then data_starting_year data \<noteq> None
      else if field = ''initial_capital'' then data_initial_capital data \<noteq> None
      else if field = ''key_principles'' then data_key_principles data \<noteq> None
      else if field = ''decisions'' then data_decisions data \<noteq> None
      else if field = ''analysis_templates'' then data_analysis_templates data \<noteq> None
      else False)"

definition decision_has_field :: "decision \<Rightarrow> string \<Rightarrow> bool" where
  "decision_has_field d field =
     (if field = ''year'' then d_year d \<noteq> None
      else if field = ''context'' then d_context d \<noteq> None
      else if field = ''question'' then d_question d \<noteq> None
      else if field = ''choices'' then d_choices d \<noteq> None
      else if field = ''correct_choice'' then d_correct_choice d \<noteq> None
      else if field = ''historical_context'' then d_historical_context d \<noteq> None
      else False)"

text \<open>
  The loop of \<open>_validate_character\<close> over \<open>decisions.items()\<close>, with its three early
  returns. \<open>decision.get('choices', {})\<close> is the empty dict when the key is absent, and
  \<open>not choices\<close> holds of the empty dict.
\<close>

fun validate_decisions :: "(dkey \<times> decision) list \<Rightarrow> bool" where
  "validate_decisions [] = True"
| "validate_decisions ((decision_id, d) # rest) =
     (if \<not> list_all (decision_has_field d) REQUIRED_DECISION_FIELDS then False
      else
        let choices = (case d_choices d of None \<Rightarrow> [] | Some cs \<Rightarrow> cs) in
        if choices = [] then False
        else
          (case d_correct_choice d of
             None \<Rightarrow> False
           | Some correct_choice \<Rightarrow>
               if map_of choices correct_choice = None then False
               else validate_decisions rest))"

text \<open>
  \<open>_validate_character\<close>: the verdict, and whether the warning "has no analysis
  templates" was logged.
\<close>

definition validate_character :: "character_data \<Rightarrow> bool \<times> bool" where
  "validate_character data =
     (if \<not> list_all (data_has_field data) REQUIRED_CHARACTER_FIELDS then (False, False)
      else
        let ds = (case data_decisions data of None \<Rightarrow> [] | Some ds \<Rightarrow> ds) in
        if ds = [] then (False, False)
        else if \<not> validate_decisions ds then (False, False)
        else
          let analysis_templates =
                (case data_analysis_templates data of None \<Rightarrow> Some [] | Some v \<Rightarrow> v)
          in (True, analysis_templates = None \<or> analysis_templates = Some []))"

text \<open>
  \<open>_load_all_characters\<close>, given the listing of the directory as pairs of the character
  identifier (the file name without its extension) and what reading the file gives:
  the parsed document, or an exception, which the loop catches and logs. A missing
  directory (\<open>FileNotFoundError\<close>) is the listing \<open>None\<close>.
\<close>

datatype yaml_file = Parsed character_data | Unreadable

fun load_files ::
  "(string \<times> yaml_file) list \<Rightarrow> (string \<times> character) list \<Rightarrow> (string \<times> character) list" where
  "load_files [] characters = characters"
| "load_files ((character_id, file) # rest) characters =
     load_files rest
       (case file of
          Unreadable \<Rightarrow> characters
        | Parsed data \<Rightarrow>
            if fst (validate_character data)
            then (case Character character_id data of
                    Inl e \<Rightarrow> characters
                  | Inr ch \<Rightarrow> AList.update character_id ch characters)
            else characters)"

definition load_all_characters :: "(string \<times> yaml_file) list option \<Rightarrow> (string \<times> character) list" where
  "load_all_characters listing =
     (case listing of None \<Rightarrow> [] | Some files \<Rightarrow> load_files files [])"

section \<open>Analysis of a session (GameSession.get\_analysis, Character.get\_analysis)\<close>

text \<open>
  Python's \<open>/\<close> on integers gives a float; the model divides in the reals, so the
  rounding of floating-point arithmetic is not part of it.
\<close>

record analysis =
  an_text :: string
  an_principles :: "string list"
  an_score :: int
  an_max_score :: int
  an_percentage :: real
  an_correct_decisions :: int
  an_total_decisions :: int
  an_accuracy :: real

text \<open>The inner and the outer loop of \<open>get_max_possible_score\<close>.\<close>

fun highest_choice_score :: "int \<Rightarrow> (string \<times> choice_data) list \<Rightarrow> int" where
  "highest_choice_score highest_score [] = highest_score"
| "highest_choice_score highest_score ((choice_id, cd) # rest) =
     highest_choice_score
       (case choice_score cd of
          None \<Rightarrow> highest_score
        | Some sc \<Rightarrow> if sc > highest_score then sc else highest_score)
       rest"

fun max_score_loop :: "character \<Rightarrow> int list \<Rightarrow> int \<Rightarrow> int" where
  "max_score_loop c [] max_score = max_score"
| "max_score_loop c (i # rest) max_score =
     max_score_loop c rest
       (case get_decision c i of
          None \<Rightarrow> max_score
        | Some d \<Rightarrow>
            (case d_choices d of
               None \<Rightarrow> max_score
             | Some choices \<Rightarrow> max_score + highest_choice_score 0 choices))"

definition get_max_possible_score :: "game_session \<Rightarrow> int" where
  "get_max_possible_score s =
     max_score_loop (character s) [1 .. get_total_decisions (character s)] 0"

definition get_score_percentage :: "game_session \<Rightarrow> real" where
  "get_score_percentage s =
     (let max_score = get_max_possible_score s in
      if max_score = 0 then 0
      else (real_of_int (total_score s) / real_of_int max_score) * 100)"

definition default_template :: "string \<Rightarrow> template" where
  "default_template txt = \<lparr> t_text = Some txt, t_principles = Some [] \<rparr>"

text \<open>
  \<open>Character.get_analysis\<close>. Each branch calls \<open>self.analysis_templates.get\<close>, which raises
  \<open>AttributeError\<close> when \<open>analysis_templates\<close> is \<open>None\<close>.
\<close>

definition Character_get_analysis :: "character \<Rightarrow> real \<Rightarrow> py_error + template" where
  "Character_get_analysis c score_percentage =
     (case analysis_templates c of
        None \<Rightarrow> Inl AttributeError
      | Some templates \<Rightarrow>
          Inr (if score_percentage \<ge> 80
               then (case map_of templates ''excellent'' of
                       None \<Rightarrow> default_template ''Excellent performance!'' | Some t \<Rightarrow> t)
               else if score_percentage \<ge> 60
               then (case map_of templates ''good'' of
                       None \<Rightarrow> default_template ''Good performance!'' | Some t \<Rightarrow> t)
               else (case map_of templates ''needs_improvement'' of
                       None \<Rightarrow> default_template ''Needs improvement.'' | Some t \<Rightarrow> t)))"

text \<open>The loop of \<open>get_analysis\<close> that counts the correct decisions.\<close>

fun count_correct :: "character \<Rightarrow> (int \<times> string) list \<Rightarrow> int \<Rightarrow> int" where
  "count_correct c [] correct_decisions = correct_decisions"
| "count_correct c ((decision_num, choice) # rest) correct_decisions =
     count_correct c rest
       (if is_correct_choice c decision_num choice
        then correct_decisions + 1 else correct_decisions)"

definition GameSession_get_analysis :: "game_session \<Rightarrow> py_error + analysis" where
  "GameSession_get_analysis s =
     (let score_percentage = get_score_percentage s in
      case Character_get_analysis (character s) score_percentage of
        Inl e \<Rightarrow> Inl e
      | Inr analysis_template \<Rightarrow>
          let correct_decisions = count_correct (character s) (decisions_made s) 0;
              total_decisions = get_total_decisions (character s);
              accuracy = (if total_decisions > 0
                          then (real_of_int correct_decisions / real_of_int total_decisions) * 100
                          else 0)
          in Inr
            \<lparr> an_text = (case t_text analysis_template of None \<Rightarrow> [] | Some t \<Rightarrow> t),
              an_principles =
                (case t_principles analysis_template of None \<Rightarrow> [] | Some ps \<Rightarrow> ps),
              an_score = total_score s,
              an_max_score = get_max_possible_score s,
              an_percentage = score_percentage,
              an_correct_decisions = correct_decisions,
              an_total_decisions = total_decisions,
              an_accuracy = accuracy \<rparr>)"

section \<open>The quantities of the specification\<close>

text \<open>
  The specification's words, to compare the code with. The scores of the choices of a
  decision, an absent score counting 0; the sum over the decisions of the highest of
  them (\<open>spec_max_possible_score\<close>), and the same with each decision's highest score
  taken not below 0 (\<open>floored_max_possible_score\<close>); the tier of a percentage and its
  built-in blurb; the correct choice of a numbered decision; a well-formed decision;
  a file that is accepted.
\<close>

definition choice_scores :: "decision \<Rightarrow> int list" where
  "choice_scores d =
     (case d_choices d of
        None \<Rightarrow> []
      | Some choices \<Rightarrow>
          map (\<lambda>(k, cd). case choice_score cd of None \<Rightarrow> 0 | Some sc \<Rightarrow> sc) choices)"

definition spec_max_possible_score :: "character \<Rightarrow> int" where
  "spec_max_possible_score c =
     (\<Sum>d\<leftarrow>map snd (sorted_decisions c). Max (set (choice_scores d)))"

definition floored_max_possible_score :: "character \<Rightarrow> int" where
  "floored_max_possible_score c =
     (\<Sum>d\<leftarrow>map snd (sorted_decisions c). Max (insert 0 (set (choice_scores d))))"

definition decision_max :: "decision \<Rightarrow> int" where
  "decision_max d =
     (case d_choices d of None \<Rightarrow> 0 | Some choices \<Rightarrow> highest_choice_score 0 choices)"

definition tier :: "real \<Rightarrow> string" where
  "tier percentage =
     (if percentage \<ge> 80 then ''excellent''
      else if 60 \<le> percentage \<and> percentage < 80 then ''good''
      else ''needs_improvement'')"

definition default_blurb :: "string \<Rightarrow> string" where
  "default_blurb t =
     (if t = ''excellent'' then ''Excellent performance!''
      else if t = ''good'' then ''Good performance!''
      else ''Needs improvement.'')"

definition correct_choice_of :: "character \<Rightarrow> int \<Rightarrow> string option" where
  "correct_choice_of c n =
     (case get_decision c n of None \<Rightarrow> None | Some d \<Rightarrow> d_correct_choice d)"

definition decision_well_formed :: "decision \<Rightarrow> bool" where
  "decision_well_formed d =
     (d_year d \<noteq> None \<and> d_context d \<noteq> None \<and> d_question d \<noteq> None \<and>
      (case d_choices d of
         None \<Rightarrow> False
       | Some choices \<Rightarrow>
           choices \<noteq> [] \<and>
           (case d_correct_choice d of
              None \<Rightarrow> False
            | Some cc \<Rightarrow> cc \<in> fst ` set choices)))"

definition accepted :: "yaml_file \<Rightarrow> bool" where
  "accepted file = (case file of Unreadable \<Rightarrow> False | Parsed data \<Rightarrow> fst (validate_character data))"

section \<open>The scenario character of the specification\<close>

definition mk_choice :: "string \<Rightarrow> int \<Rightarrow> choice_data" where
  "mk_choice txt sc =
     \<lparr> choice_text = Some txt, choice_score = Some sc,
       choice_outcome = None, choice_lesson = None \<rparr>"

definition mk_decision ::
  "int \<Rightarrow> (string \<times> choice_data) list \<Rightarrow> string \<Rightarrow> decision" where
  "mk_decision y cs cc =
     \<lparr> d_year = Some y, d_context = Some ''context'', d_question = Some ''question'',
       d_choices = Some cs, d_correct_choice = Some cc, d_historical_context = None \<rparr>"

definition alice_data :: character_data where
  "alice_data =
     \<lparr> data_name = Some ''Alice'', data_title = Some ''Investor'',
       data_starting_year = Some 1990, data_initial_capital = Some 1000,
       data_key_principles = Some [],
       data_decisions = Some
         [(IntKey 1, mk_decision 1990
             [(''a'', mk_choice ''first'' 10), (''b'', mk_choice ''second'' 4)] ''a''),
          (IntKey 2, mk_decision 1991
             [(''a'', mk_choice ''first'' 5), (''b'', mk_choice ''second'' 20)] ''b'')],
       data_analysis_templates = Some (Some []) \<rparr>"

definition alice :: character where
  "alice = projr (Character ''alice'' alice_data)"

text \<open>A bot with the scenario character loaded, an empty store and one known user.\<close>

definition empty_db :: database where
  "empty_db =
     \<lparr> db_users = [], db_games = [], db_game_seq = 0, db_decisions = [],
       db_feedback = [], db_active_sessions = [], db_completed_log = [] \<rparr>"

definition bot0 :: bot where
  "bot0 =
     \<lparr> cog_CharacterLoader = Some [(''alice'', alice)], cog_Database = Some empty_db,
       discord_users = [(7, \<lparr> du_name = ''player'', du_send = Delivered \<rparr>)],
       active_sessions = [], user_sessions = [], sent_messages = [] \<rparr>"

text \<open>User 7 has started a game as the scenario character at time 100.\<close>

definition bot1 :: bot where
  "bot1 = snd (create_game_session ''s1'' 100 bot0 7 ''alice'' 5)"

text \<open>The same user then starts a second game at time 150.\<close>

definition bot2 :: bot where
  "bot2 = snd (create_game_session ''s2'' 150 bot1 7 ''alice'' 5)"


text \<open>
  The scenario session as \<open>GameSession.make_decision\<close> would leave it had it been called
  with the current decision number for both decisions, "a" then "b".
\<close>

definition session_done :: game_session where
  "session_done =
     \<lparr> session_id = ''s1'', user_id = 7, character = alice, game_id = 1,
       channel_id = 5, current_decision = 3, total_score = 30,
       decisions_made = [(1, ''a''), (2, ''b'')], last_activity = 200, message_id = None \<rparr>"

text \<open>A character whose only decision has negative scores throughout.\<close>

definition bob_data :: character_data where
  "bob_data =
     \<lparr> data_name = Some ''Bob'', data_title = Some ''Speculator'',
       data_starting_year = Some 2000, data_initial_capital = Some 500,
       data_key_principles = Some [],
       data_decisions = Some
         [(IntKey 1, mk_decision 2000
             [(''a'', mk_choice ''sell'' (- 5)), (''b'', mk_choice ''hold'' (- 2))] ''b'')],
       data_analysis_templates = Some (Some []) \<rparr>"

definition bob :: character where
  "bob = projr (Character ''bob'' bob_data)"

text \<open>
  The scenario session after \<open>GameSession.make_decision\<close> was called with the current
  decision number for both decisions.
\<close>

definition played :: "string \<Rightarrow> string \<Rightarrow> game_session" where
  "played first second =
     snd (GameSession_make_decision 300
       (snd (GameSession_make_decision 200 (GameSession ''s1'' 100 7 alice 1 5) 1 first))
       2 second)"

section \<open>Executions of the manager\<close>

text \<open>
  \<open>GameManager.__init__\<close> starts with both dicts empty. A step is one call of a manager
  operation (a new session gets an identifier that is not in use), the user interface
  storing the identifier of its last message in a session, or any change of the
  collaborators that leaves the manager's two dicts alone.
\<close>

definition initial :: "bot \<Rightarrow> bool" where
  "initial st = (active_sessions st = [] \<and> user_sessions st = [])"

inductive engine_step :: "bot \<Rightarrow> bot \<Rightarrow> bool" where
  start: "new_id \<notin> fst ` set (active_sessions st) \<Longrightarrow>
            engine_step st (snd (create_game_session new_id now st uid cid chan))"
| advance: "engine_step st (snd (GameManager_make_decision now st sid choice))"
| finish: "engine_step st (snd (end_game_session st sid completed))"
| lookup: "engine_step st (snd (get_user_session st uid))"
| feedback: "engine_step st (snd (GameManager_record_feedback now st sid rating comments))"
| sweep: "engine_step st (cleanup_old_sessions now st)"
| message: "map_of (active_sessions st) sid = Some s \<Longrightarrow>
            engine_step st
              (st\<lparr> active_sessions :=
                    AList.update sid (s\<lparr> message_id := Some m \<rparr>) (active_sessions st) \<rparr>)"
| environment: "active_sessions st' = active_sessions st \<Longrightarrow>
            user_sessions st' = user_sessions st \<Longrightarrow> engine_step st st'"

inductive reachable :: "bot \<Rightarrow> bool" where
  init: "initial st \<Longrightarrow> reachable st"
| step: "reachable st \<Longrightarrow> engine_step st st' \<Longrightarrow> reachable st'"

definition consistent :: "bot \<Rightarrow> bool" where
  "consistent st =
     ((\<forall>sid s. map_of (active_sessions st) sid = Some s \<longrightarrow>
          map_of (user_sessions st) (user_id s) = Some sid) \<and>
      (\<forall>uid sid. map_of (user_sessions st) uid = Some sid \<longrightarrow>
          (\<exists>s. map_of (active_sessions st) sid = Some s \<and> user_id s = uid)))"






section \<open>Properties of GameSession\<close>


lemma alice_sorted_decisions:
  "sorted_decisions alice =
     [(IntKey 1, mk_decision 1990
         [(''a'', mk_choice ''first'' 10), (''b'', mk_choice ''second'' 4)] ''a''),
      (IntKey 2, mk_decision 1991
         [(''a'', mk_choice ''first'' 5), (''b'', mk_choice ''second'' 20)] ''b'')]"
  by (simp add: alice_def Character_def alice_data_def Let_def)

lemma alice_total_decisions: "get_total_decisions alice = 2"
  by (simp add: get_total_decisions_def alice_sorted_decisions)

text \<open>
  C10. \<open>GameSession.make_decision\<close> called with a decision number other than the
  session's current decision index returns score 0 and leaves the whole session as it
  was: total score, current decision index, recorded decisions and last activity keep
  their values.
\<close>

theorem GameSession_make_decision_mismatch:
  "decision_number \<noteq> current_decision s \<Longrightarrow>
     GameSession_make_decision now s decision_number choice = (0, s)"
  by (simp add: GameSession_make_decision_def)

theorem GameSession_make_decision_mismatch_witness:
  "(2::int) \<noteq> current_decision (GameSession ''s1'' 100 7 alice 1 5) \<and>
   GameSession_make_decision 900 (GameSession ''s1'' 100 7 alice 1 5) 2 ''a''
     = (0, GameSession ''s1'' 100 7 alice 1 5)"
  using GameSession_make_decision_mismatch
    [of 2 "GameSession ''s1'' 100 7 alice 1 5" 900 "''a''"]
  by (simp add: GameSession_def)

lemma GameSession_make_decision_current:
  "GameSession_make_decision now s (current_decision s) choice =
     (get_choice_score (character s) (current_decision s) choice,
      s\<lparr> decisions_made := AList.update (current_decision s) choice (decisions_made s),
         total_score := total_score s + get_choice_score (character s) (current_decision s) choice,
         current_decision := current_decision s + 1,
         last_activity := now \<rparr>)"
  by (simp add: GameSession_make_decision_def Let_def)

lemma get_choice_score_unknown_key:
  "get_decision c n = Some d \<Longrightarrow> d_choices d = Some choices \<Longrightarrow>
     map_of choices choice = None \<Longrightarrow> get_choice_score c n choice = 0"
  by (simp add: get_choice_score_def)

section \<open>Properties of GameManager\<close>

lemmas db_defs = get_or_create_user_def create_game_def create_session_def
  update_session_activity_def end_session_def record_decision_def complete_game_def
  Database_record_feedback_def update_where_def

lemma bot1_eq:
  "bot1 =
     \<lparr> cog_CharacterLoader = Some [(''alice'', alice)],
       cog_Database = Some
         \<lparr> db_users = [(7, \<lparr> u_username = ''player'', u_games_played = 1,
                              u_total_score = 0, u_last_played = 100 \<rparr>)],
           db_games = [(1, \<lparr> g_user_id = 7, g_character_id = ''alice'', g_total_score = 0,
                              g_timestamp = 100, g_completed = False \<rparr>)],
           db_game_seq = 1, db_decisions = [], db_feedback = [],
           db_active_sessions =
             [\<lparr> as_session_id = ''s1'', as_user_id = 7, as_game_id = 1,
                as_channel_id = 5, as_last_activity = 100 \<rparr>],
           db_completed_log = [] \<rparr>,
       discord_users = [(7, \<lparr> du_name = ''player'', du_send = Delivered \<rparr>)],
       active_sessions = [(''s1'', GameSession ''s1'' 100 7 alice 1 5)],
       user_sessions = [(7, ''s1'')], sent_messages = [] \<rparr>"
  by (simp add: bot1_def bot0_def create_game_session_def empty_db_def db_defs Let_def)

text \<open>
  C1. The claim: \<open>advance\<close> on a live session at index \<open>i\<close> records the choice at \<open>i\<close>,
  adds its score, moves the index to \<open>i + 1\<close> and returns the score; on the scenario
  character the pick "a" gives +10 and index 2. The code at that input:
  \<open>GameManager.make_decision\<close> hands \<open>current_decision - 1 = 0\<close> to the session, whose
  guard compares it with the current index 1 and returns 0; the call returns
  \<open>(0, False)\<close> and the session keeps index 1, score 0 and no recorded decision.
\<close>

theorem GameManager_make_decision_scenario_no_progress:
  "fst (GameManager_make_decision 200 bot1 ''s1'' ''a'') = Inr (0, False) \<and>
   map_of (active_sessions (snd (GameManager_make_decision 200 bot1 ''s1'' ''a''))) ''s1''
     = Some \<lparr> session_id = ''s1'', user_id = 7, character = alice, game_id = 1,
              channel_id = 5, current_decision = 1, total_score = 0,
              decisions_made = [], last_activity = 100, message_id = None \<rparr> \<and>
   get_choice_score alice 1 ''a'' = 10"
  by (simp add: bot1_eq GameManager_make_decision_def GameSession_make_decision_def
      GameSession_def is_completed_def alice_total_decisions db_defs Let_def
      get_choice_score_def get_decision_def alice_sorted_decisions mk_decision_def
      mk_choice_def)

text \<open>
  C2. The claim: \<open>advance\<close> with a choice key that the current decision does not offer
  returns score 0 and still moves the index on by one, recording the key. The code at
  key "z" on the scenario character: the score is 0, but the index stays 1 and
  nothing is recorded, for the same reason as in C1.
\<close>

theorem GameManager_make_decision_unknown_key_no_progress:
  "fst (GameManager_make_decision 200 bot1 ''s1'' ''z'') = Inr (0, False) \<and>
   map_option current_decision
     (map_of (active_sessions (snd (GameManager_make_decision 200 bot1 ''s1'' ''z''))) ''s1'')
     = Some 1 \<and>
   map_option decisions_made
     (map_of (active_sessions (snd (GameManager_make_decision 200 bot1 ''s1'' ''z''))) ''s1'')
     = Some []"
  by (simp add: bot1_eq GameManager_make_decision_def GameSession_make_decision_def
      GameSession_def is_completed_def alice_total_decisions db_defs Let_def)

text \<open>
  C6, as the code has it. \<open>make_decision\<close> with a session identifier that is not in
  \<open>active_sessions\<close> returns the ordinary pair \<open>(0, False)\<close> and changes nothing;
  \<open>end_game_session\<close> with such an identifier returns without raising and changes
  nothing. Neither raises or returns a failure value.
\<close>

theorem unknown_session_is_silent:
  "map_of (active_sessions st) sid = None \<Longrightarrow>
     GameManager_make_decision now st sid choice = (Inr (0, False), st) \<and>
     end_game_session st sid completed = (Inr (), st)"
  by (simp add: GameManager_make_decision_def end_game_session_def)

theorem unknown_session_is_silent_witness:
  "map_of (active_sessions bot1) ''s2'' = None \<and>
   GameManager_make_decision 200 bot1 ''s2'' ''a'' = (Inr (0, False), bot1) \<and>
   end_game_session bot1 ''s2'' False = (Inr (), bot1)"
  using unknown_session_is_silent [of bot1 "''s2''" 200 "''a''" False]
  by (simp add: bot1_eq)

text \<open>
  The claim C6 as stated fails on a bot with no session at all: \<open>make_decision\<close> returns
  a normal \<open>(score, completed)\<close> pair and \<open>end_game_session\<close> is a silent no-op.
\<close>

theorem unknown_session_counterexample:
  "fst (GameManager_make_decision 200 bot0 ''nope'' ''a'') = Inr (0, False) \<and>
   end_game_session bot0 ''nope'' True = (Inr (), bot0)"
  by (simp add: GameManager_make_decision_def end_game_session_def bot0_def)


lemma map_of_update_where:
  "map_of (update_where k f rows) k' =
     (if k' = k then map_option f (map_of rows k') else map_of rows k')"
  by (induction rows) (auto simp: update_where_def)

text \<open>
  \<open>GameManager.make_decision\<close> has no guard of the kind \<open>end_game_session\<close> has
  (\<open>completed and not session.is_completed()\<close>): were a live session already past its
  last decision, the call would run \<open>complete_game\<close> for its game once more. No run of
  the manager brings a session there, see \<open>operated\<close> below.
\<close>

lemma GameManager_make_decision_completes_again:
  assumes "map_of (active_sessions st) sid = Some s" and "is_completed s"
    and "cog_Database st = Some db" and "map_of (db_games db) (game_id s) = Some g"
  shows "map_option db_completed_log
      (cog_Database (snd (GameManager_make_decision now st sid choice)))
      = Some (db_completed_log db @ [(game_id s, g_total_score g)])"
  using assms
  by (simp add: GameManager_make_decision_def GameSession_make_decision_def Let_def
      complete_game_def record_decision_def update_session_activity_def
      map_of_update_where)

text \<open>
  \<open>GameSession.make_decision\<close> itself never lowers the index and raises it by one at
  most; it has no upper guard of its own.
\<close>

lemma GameSession_make_decision_index:
  "current_decision s \<le> current_decision (snd (GameSession_make_decision now s n choice)) \<and>
   current_decision (snd (GameSession_make_decision now s n choice)) \<le> current_decision s + 1"
  by (simp add: GameSession_make_decision_def Let_def)

lemma GameSession_make_decision_no_upper_guard:
  "current_decision (snd (GameSession_make_decision 400 session_done 3 ''a'')) = 4 \<and>
   get_total_decisions (character session_done) = 2"
  by (simp add: GameSession_make_decision_def Let_def session_done_def alice_total_decisions)

text \<open>
  C7. The claim: the sweep ends every session idle for longer than the timeout and
  attempts a notification to its user. The code on the bot with the one session of
  user 7, last active at time 100, swept just over 300 seconds later: the session is
  ended and no longer found for the user, but \<open>user.send\<close> is never called, although
  the user is known and reachable: the notification is guarded by
  \<open>session_id in self.active_sessions\<close>, tested after the session was deleted.
\<close>

theorem cleanup_old_sessions_sends_no_message:
  "inactive 300000101 (GameSession ''s1'' 100 7 alice 1 5) \<and>
  map_of (discord_users bot1) 7 = Some \<lparr> du_name = ''player'', du_send = Delivered \<rparr> \<and>
  active_sessions (cleanup_old_sessions 300000101 bot1) = [] \<and>
  fst (get_user_session (cleanup_old_sessions 300000101 bot1) 7) = None \<and>
  sent_messages (cleanup_old_sessions 300000101 bot1) = []"
  by (simp add: bot1_eq cleanup_old_sessions_def inactive_def GAME_TIMEOUT_def GameSession_def
     end_game_session_def get_user_session_def is_completed_def end_session_def)

lemma end_game_session_False:
  assumes "cog_Database st = Some db"
  shows "fst (end_game_session st sid False) = Inr () \<and>
     map_of (active_sessions (snd (end_game_session st sid False))) sid = None \<and>
     cog_Database (snd (end_game_session st sid False)) \<noteq> None \<and>
     sent_messages (snd (end_game_session st sid False)) = sent_messages st"
  using assms
  by (simp add: end_game_session_def AList.delete_conv' split: option.splits)

lemma cleanup_loop_sends_nothing:
  "cog_Database st \<noteq> None \<Longrightarrow> sent_messages (cleanup_loop sids st) = sent_messages st"
proof (induction sids arbitrary: st)
  case Nil
  then show ?case by simp
next
  case (Cons sid rest)
  then obtain db where db: "cog_Database st = Some db" by auto
  obtain r st1 where e: "end_game_session st sid False = (r, st1)" by force
  from end_game_session_False [OF db, of sid] e
  have "r = Inr ()" "map_of (active_sessions st1) sid = None" "cog_Database st1 \<noteq> None"
    "sent_messages st1 = sent_messages st" by simp_all
  with Cons.IH [of st1] e show ?case by simp
qed

lemma cleanup_old_sessions_never_notifies:
  "cog_Database st \<noteq> None \<Longrightarrow>
     sent_messages (cleanup_old_sessions now st) = sent_messages st"
  by (simp add: cleanup_old_sessions_def cleanup_loop_sends_nothing)

text \<open>
  With the database loaded and no key twice in \<open>active_sessions\<close>, the sweep removes
  exactly the sessions idle for longer than the timeout; the others survive unchanged.
\<close>

lemma end_game_session_False_map:
  assumes "cog_Database st = Some db"
  shows "map_of (active_sessions (snd (end_game_session st sid False)))
           = (map_of (active_sessions st))(sid := None)"
  using assms
  by (auto simp: end_game_session_def AList.delete_conv' split: option.splits)

lemma cleanup_loop_map:
  "cog_Database st \<noteq> None \<Longrightarrow>
     map_of (active_sessions (cleanup_loop sids st)) sid =
       (if sid \<in> set sids then None else map_of (active_sessions st) sid)"
proof (induction sids arbitrary: st)
  case Nil
  then show ?case by simp
next
  case (Cons x rest)
  then obtain db where db: "cog_Database st = Some db" by auto
  obtain r st1 where e: "end_game_session st x False = (r, st1)" by force
  from end_game_session_False [OF db, of x] e
  have f: "r = Inr ()" "map_of (active_sessions st1) x = None" "cog_Database st1 \<noteq> None"
    by simp_all
  from end_game_session_False_map [OF db, of x] e
  have m: "map_of (active_sessions st1) = (map_of (active_sessions st))(x := None)" by simp
  from e f have "cleanup_loop (x # rest) st = cleanup_loop rest st1" by simp
  with Cons.IH [OF f(3)] m show ?case by simp
qed

lemma cleanup_old_sessions_removes_idle:
  assumes db: "cog_Database st \<noteq> None" and d: "distinct (map fst (active_sessions st))"
  shows "map_of (active_sessions (cleanup_old_sessions now st)) sid =
     (case map_of (active_sessions st) sid of
        None \<Rightarrow> None
      | Some s \<Rightarrow> if inactive now s then None else Some s)"
proof -
  have "sid \<in> set (map fst (filter (\<lambda>(k, s). inactive now s) (active_sessions st)))
      \<longleftrightarrow> (\<exists>s. map_of (active_sessions st) sid = Some s \<and> inactive now s)"
    using d by (auto simp: image_iff)
  with cleanup_loop_map [OF db] show ?thesis
    by (auto simp: cleanup_old_sessions_def split: option.splits)
qed

section \<open>The two dicts stay consistent\<close>

lemma consistentD1:
  "consistent st \<Longrightarrow> map_of (active_sessions st) sid = Some s \<Longrightarrow>
     map_of (user_sessions st) (user_id s) = Some sid"
  unfolding consistent_def by blast

lemma consistentD2:
  "consistent st \<Longrightarrow> map_of (user_sessions st) uid = Some sid \<Longrightarrow>
     \<exists>s. map_of (active_sessions st) sid = Some s \<and> user_id s = uid"
  unfolding consistent_def by blast

lemma end_game_session_cases:
  "snd (end_game_session st sid c) = st \<or>
   (\<exists>s db'. map_of (active_sessions st) sid = Some s \<and> cog_Database st \<noteq> None \<and>
      snd (end_game_session st sid c) =
        st\<lparr> cog_Database := Some db',
            user_sessions :=
              (if map_of (user_sessions st) (user_id s) = Some sid
               then AList.delete (user_id s) (user_sessions st) else user_sessions st),
            active_sessions := AList.delete sid (active_sessions st) \<rparr>)"
  by (auto simp: end_game_session_def split: option.splits sum.splits prod.splits)

lemma consistent_removed:
  assumes c: "consistent st" and s: "map_of (active_sessions st) sid = Some s"
  shows "consistent
           (st\<lparr> cog_Database := d,
               user_sessions :=
                 (if map_of (user_sessions st) (user_id s) = Some sid
                  then AList.delete (user_id s) (user_sessions st) else user_sessions st),
               active_sessions := AList.delete sid (active_sessions st) \<rparr>)"
proof -
  from c s have u: "map_of (user_sessions st) (user_id s) = Some sid"
    by (rule consistentD1)
  show ?thesis
    unfolding consistent_def
  proof (intro conjI allI impI)
    fix sid' s'
    assume "map_of (active_sessions (st\<lparr> cog_Database := d,
               user_sessions :=
                 (if map_of (user_sessions st) (user_id s) = Some sid
                  then AList.delete (user_id s) (user_sessions st) else user_sessions st),
               active_sessions := AList.delete sid (active_sessions st) \<rparr>)) sid' = Some s'"
    then have ne: "sid' \<noteq> sid" and l: "map_of (active_sessions st) sid' = Some s'"
      by (auto simp: AList.delete_conv' split: if_splits)
    from c l have u': "map_of (user_sessions st) (user_id s') = Some sid'"
      by (rule consistentD1)
    with u ne have "user_id s' \<noteq> user_id s" by auto
    with u u' show "map_of (user_sessions (st\<lparr> cog_Database := d,
               user_sessions :=
                 (if map_of (user_sessions st) (user_id s) = Some sid
                  then AList.delete (user_id s) (user_sessions st) else user_sessions st),
               active_sessions := AList.delete sid (active_sessions st) \<rparr>)) (user_id s') = Some sid'"
      by (simp add: AList.delete_conv')
  next
    fix uid sid'
    assume "map_of (user_sessions (st\<lparr> cog_Database := d,
               user_sessions :=
                 (if map_of (user_sessions st) (user_id s) = Some sid
                  then AList.delete (user_id s) (user_sessions st) else user_sessions st),
               active_sessions := AList.delete sid (active_sessions st) \<rparr>)) uid = Some sid'"
    with u have ne: "uid \<noteq> user_id s" and m: "map_of (user_sessions st) uid = Some sid'"
      by (auto simp: AList.delete_conv' split: if_splits)
    from consistentD2 [OF c m]
    obtain s' where l: "map_of (active_sessions st) sid' = Some s'" "user_id s' = uid"
      by blast
    with ne s have "sid' \<noteq> sid" by auto
    with l show "\<exists>s'. map_of (active_sessions (st\<lparr> cog_Database := d,
               user_sessions :=
                 (if map_of (user_sessions st) (user_id s) = Some sid
                  then AList.delete (user_id s) (user_sessions st) else user_sessions st),
               active_sessions := AList.delete sid (active_sessions st) \<rparr>)) sid' = Some s' \<and> user_id s' = uid"
      by (simp add: AList.delete_conv')
  qed
qed

lemma consistent_end_game_session:
  "consistent st \<Longrightarrow> consistent (snd (end_game_session st sid c))"
  using end_game_session_cases [of st sid c] consistent_removed [of st sid]
  by auto


lemma create_game_session_session:
  assumes "create_game_session new_id now st uid cid chan = (Some session, st')"
  shows "user_id session = uid \<and> current_decision session = 1 \<and> session_id session = new_id
     \<and> total_score session = 0 \<and> decisions_made session = []"
  using assms
  by (auto simp: create_game_session_def Let_def GameSession_def
      split: option.splits prod.splits)

lemma create_game_session_maps:
  assumes c: "consistent st" and f: "new_id \<notin> fst ` set (active_sessions st)"
    and r: "create_game_session new_id now st uid cid chan = (Some session, st')"
  shows "map_of (active_sessions st') =
           (case map_of (user_sessions st) uid of
              None \<Rightarrow> (map_of (active_sessions st))(new_id \<mapsto> session)
            | Some old \<Rightarrow> ((map_of (active_sessions st))(new_id \<mapsto> session))(old := None))"
    and "map_of (user_sessions st') = (map_of (user_sessions st))(uid \<mapsto> new_id)"
proof -
  from f have n: "map_of (active_sessions st) new_id = None"
    by (simp add: map_of_eq_None_iff)
  show "map_of (active_sessions st') =
           (case map_of (user_sessions st) uid of
              None \<Rightarrow> (map_of (active_sessions st))(new_id \<mapsto> session)
            | Some old \<Rightarrow> ((map_of (active_sessions st))(new_id \<mapsto> session))(old := None))"
  proof (cases "map_of (user_sessions st) uid")
    case None
    with r show ?thesis
      by (auto simp: create_game_session_def Let_def AList.update_conv'
          split: option.splits prod.splits)
  next
    case (Some old)
    from consistentD2 [OF c Some] obtain s where
      s: "map_of (active_sessions st) old = Some s" "user_id s = uid" by blast
    with n have ne: "old \<noteq> new_id" by auto
    from r Some s ne show ?thesis
      by (auto simp: create_game_session_def Let_def AList.update_conv' AList.delete_conv'
          end_game_session_def split: option.splits prod.splits)
  qed
  show "map_of (user_sessions st') = (map_of (user_sessions st))(uid \<mapsto> new_id)"
  proof (cases "map_of (user_sessions st) uid")
    case None
    with r show ?thesis
      by (auto simp: create_game_session_def Let_def AList.update_conv'
          split: option.splits prod.splits)
  next
    case (Some old)
    from consistentD2 [OF c Some] obtain s where
      s: "map_of (active_sessions st) old = Some s" "user_id s = uid" by blast
    with n have ne: "old \<noteq> new_id" by auto
    from r Some s ne show ?thesis
      by (auto simp: create_game_session_def Let_def AList.update_conv' AList.delete_conv'
          end_game_session_def split: option.splits prod.splits)
  qed
qed


lemma consistent_cong:
  "map_of (active_sessions st') = map_of (active_sessions st) \<Longrightarrow>
   map_of (user_sessions st') = map_of (user_sessions st) \<Longrightarrow>
   consistent st' = consistent st"
  by (simp add: consistent_def)

lemma create_game_session_failure:
  "fst (create_game_session new_id now st uid cid chan) = None \<Longrightarrow>
     snd (create_game_session new_id now st uid cid chan) = st"
  by (auto simp: create_game_session_def Let_def split: option.splits prod.splits)

lemma consistent_create_game_session:
  assumes c: "consistent st" and f: "new_id \<notin> fst ` set (active_sessions st)"
  shows "consistent (snd (create_game_session new_id now st uid cid chan))"
proof (cases "fst (create_game_session new_id now st uid cid chan)")
  case None
  with c show ?thesis by (simp add: create_game_session_failure)
next
  case (Some session)
  obtain st' where r: "create_game_session new_id now st uid cid chan = (Some session, st')"
    using Some by (cases "create_game_session new_id now st uid cid chan") auto
  note m = create_game_session_maps [OF c f r]
  from create_game_session_session [OF r] have su: "user_id session = uid" by simp
  from f have n: "map_of (active_sessions st) new_id = None"
    by (simp add: map_of_eq_None_iff)
  have "consistent st'"
    unfolding consistent_def
  proof (intro conjI allI impI)
    fix sid s
    assume l: "map_of (active_sessions st') sid = Some s"
    show "map_of (user_sessions st') (user_id s) = Some sid"
    proof (cases "sid = new_id")
      case True
      with l m(1) n have "s = session"
        by (auto split: option.splits if_splits)
      with True su m(2) show ?thesis by simp
    next
      case False
      with l m(1) have l0: "map_of (active_sessions st) sid = Some s"
        and o: "map_of (user_sessions st) uid \<noteq> Some sid"
        by (auto split: option.splits if_splits)
      from consistentD1 [OF c l0] o have "user_id s \<noteq> uid" by auto
      with consistentD1 [OF c l0] m(2) show ?thesis by simp
    qed
  next
    fix u sid
    assume k: "map_of (user_sessions st') u = Some sid"
    show "\<exists>s. map_of (active_sessions st') sid = Some s \<and> user_id s = u"
    proof (cases "u = uid")
      case True
      with k m(2) have e: "sid = new_id" by simp
      have "map_of (user_sessions st) uid \<noteq> Some new_id"
        using consistentD2 [OF c, of uid new_id] n by auto
      with m(1) e have "map_of (active_sessions st') sid = Some session"
        by (auto split: option.splits)
      with su True show ?thesis by simp
    next
      case False
      with k m(2) have k0: "map_of (user_sessions st) u = Some sid" by simp
      from consistentD2 [OF c k0] obtain s where
        s: "map_of (active_sessions st) sid = Some s" "user_id s = u" by blast
      from s n have ne: "sid \<noteq> new_id" by auto
      have "map_of (user_sessions st) uid \<noteq> Some sid"
        using consistentD1 [OF c s(1)] s(2) False
        by (metis consistentD2 [OF c] option.inject)
      with m(1) s ne have "map_of (active_sessions st') sid = Some s"
        by (auto split: option.splits)
      with s show ?thesis by simp
    qed
  qed
  with r show ?thesis by simp
qed

lemma GameManager_make_decision_sessions:
  "map_of (active_sessions (snd (GameManager_make_decision now st sid choice)))
     = map_of (active_sessions st) \<and>
   user_sessions (snd (GameManager_make_decision now st sid choice)) = user_sessions st"
  by (auto simp: GameManager_make_decision_def GameSession_make_decision_def Let_def
      AList.update_conv' split: option.splits sum.splits prod.splits)

lemma get_user_session_sessions:
  "consistent st \<Longrightarrow> snd (get_user_session st uid) = st"
  by (auto simp: get_user_session_def split: option.splits dest: consistentD2)

lemma GameManager_record_feedback_sessions:
  "active_sessions (snd (GameManager_record_feedback now st sid rating comments))
     = active_sessions st \<and>
   user_sessions (snd (GameManager_record_feedback now st sid rating comments))
     = user_sessions st"
  by (auto simp: GameManager_record_feedback_def split: option.splits)

lemma consistent_sent_messages:
  "consistent (st\<lparr> sent_messages := ms \<rparr>) = consistent st"
  by (simp add: consistent_def)

lemma consistent_cleanup_loop:
  "consistent st \<Longrightarrow> consistent (cleanup_loop sids st)"
proof (induction sids arbitrary: st)
  case Nil
  then show ?case by simp
next
  case (Cons sid rest)
  obtain r st1 where e: "end_game_session st sid False = (r, st1)" by force
  with consistent_end_game_session [OF Cons.prems, of sid False]
  have c1: "consistent st1" by simp
  then have c2: "\<And>ms. consistent (st1\<lparr> sent_messages := ms \<rparr>)"
    by (simp add: consistent_sent_messages)
  from e c1 c2 Cons.IH show ?case
    by (auto simp: Let_def split: sum.splits option.splits send_outcome.splits)
qed

lemma consistent_message:
  assumes c: "consistent st" and l: "map_of (active_sessions st) sid = Some s"
  shows "consistent (st\<lparr> active_sessions :=
            AList.update sid (s\<lparr> message_id := m \<rparr>) (active_sessions st) \<rparr>)"
  unfolding consistent_def
proof (intro conjI allI impI)
  fix sid' s'
  assume "map_of (active_sessions (st\<lparr> active_sessions :=
            AList.update sid (s\<lparr> message_id := m \<rparr>) (active_sessions st) \<rparr>)) sid' = Some s'"
  then have "(sid' = sid \<and> s' = s\<lparr> message_id := m \<rparr>) \<or> map_of (active_sessions st) sid' = Some s'"
    by (auto simp: AList.update_conv' split: if_splits)
  with l consistentD1 [OF c]
  show "map_of (user_sessions (st\<lparr> active_sessions :=
            AList.update sid (s\<lparr> message_id := m \<rparr>) (active_sessions st) \<rparr>)) (user_id s') = Some sid'"
    by auto
next
  fix uid sid'
  assume "map_of (user_sessions (st\<lparr> active_sessions :=
            AList.update sid (s\<lparr> message_id := m \<rparr>) (active_sessions st) \<rparr>)) uid = Some sid'"
  then have "map_of (user_sessions st) uid = Some sid'" by simp
  from consistentD2 [OF c this] obtain s' where
    "map_of (active_sessions st) sid' = Some s'" "user_id s' = uid" by blast
  with l show "\<exists>s'. map_of (active_sessions (st\<lparr> active_sessions :=
            AList.update sid (s\<lparr> message_id := m \<rparr>) (active_sessions st) \<rparr>)) sid' = Some s' \<and> user_id s' = uid"
    by (auto simp: AList.update_conv')
qed

lemma consistent_engine_step:
  assumes "engine_step st st'" and "consistent st"
  shows "consistent st'"
  using assms
proof (induction rule: engine_step.induct)
  case (start new_id st now uid cid chan)
  then show ?case by (simp add: consistent_create_game_session)
next
  case (advance st now sid choice)
  then show ?case
    using consistent_cong [of "snd (GameManager_make_decision now st sid choice)" st]
    by (simp add: GameManager_make_decision_sessions)
next
  case (finish st sid completed)
  then show ?case by (simp add: consistent_end_game_session)
next
  case (lookup st uid)
  then show ?case by (simp add: get_user_session_sessions)
next
  case (feedback st now sid rating comments)
  then show ?case
    using consistent_cong
      [of "snd (GameManager_record_feedback now st sid rating comments)" st]
    by (simp add: GameManager_record_feedback_sessions)
next
  case (sweep st now)
  then show ?case by (simp add: cleanup_old_sessions_def consistent_cleanup_loop)
next
  case (message st sid s m)
  then show ?case by (simp add: consistent_message)
next
  case (environment st' st)
  then show ?case using consistent_cong [of st' st] by simp
qed

lemma reachable_consistent: "reachable st \<Longrightarrow> consistent st"
proof (induction rule: reachable.induct)
  case (init st)
  then show ?case by (simp add: initial_def consistent_def)
next
  case (step st st')
  then show ?case by (simp add: consistent_engine_step)
qed


section \<open>Sessions through the steps of the manager\<close>

lemma end_game_session_live:
  "map_of (active_sessions (snd (end_game_session st sid c))) sid' = Some s' \<Longrightarrow>
     map_of (active_sessions st) sid' = Some s'"
  using end_game_session_cases [of st sid c]
  by (auto simp: AList.delete_conv' split: if_splits)

lemma cleanup_loop_live:
  "map_of (active_sessions (cleanup_loop sids st)) sid' = Some s' \<Longrightarrow>
     map_of (active_sessions st) sid' = Some s'"
proof (induction sids arbitrary: st)
  case Nil
  then show ?case by simp
next
  case (Cons sid rest)
  obtain r st1 where e: "end_game_session st sid False = (r, st1)" by force
  have k: "map_of (active_sessions st1) sid' = Some s' \<Longrightarrow>
      map_of (active_sessions st) sid' = Some s'"
    using end_game_session_live [of st sid False sid' s'] e by simp
  have m: "\<And>ms. map_of (active_sessions (cleanup_loop rest (st1\<lparr> sent_messages := ms \<rparr>))) sid'
      = Some s' \<Longrightarrow> map_of (active_sessions st1) sid' = Some s'"
    using Cons.IH by fastforce
  have "map_of (active_sessions st1) sid' = Some s'"
  proof (cases r)
    case (Inl err)
    with Cons.prems e show ?thesis by simp
  next
    case (Inr u)
    show ?thesis
    proof (cases "map_of (active_sessions st1) sid")
      case None
      with Cons.prems e Inr show ?thesis by (simp add: Cons.IH)
    next
      case (Some session)
      show ?thesis
      proof (cases "map_of (discord_users st1) (user_id session)")
        case None
        with Cons.prems e Inr Some show ?thesis by (simp add: Cons.IH)
      next
        case (Some user)
        with Cons.prems e Inr \<open>map_of (active_sessions st1) sid = Some session\<close> m
        show ?thesis by (cases "du_send user") (simp_all add: Let_def)
      qed
    qed
  qed
  then show ?case by (rule k)
qed

lemma engine_step_session:
  assumes "engine_step st st'" and "consistent st"
    and "map_of (active_sessions st') sid = Some s'"
  shows "(\<exists>s. map_of (active_sessions st) sid = Some s \<and>
             current_decision s' = current_decision s \<and> character s' = character s) \<or>
         (map_of (active_sessions st) sid = None \<and> current_decision s' = 1)"
  using assms
proof (induction rule: engine_step.induct)
  case (start new_id st now uid cid chan)
  show ?case
  proof (cases "fst (create_game_session new_id now st uid cid chan)")
    case None
    with start show ?thesis by (simp add: create_game_session_failure)
  next
    case (Some session)
    obtain st' where r: "create_game_session new_id now st uid cid chan = (Some session, st')"
      using Some by (cases "create_game_session new_id now st uid cid chan") auto
    from start.hyps have n: "map_of (active_sessions st) new_id = None"
      by (simp add: map_of_eq_None_iff)
    from create_game_session_maps(1) [OF start.prems(1) start.hyps r] start.prems(2) r
    have "(sid = new_id \<and> s' = session) \<or> map_of (active_sessions st) sid = Some s'"
      by (auto split: option.splits if_splits)
    with n create_game_session_session [OF r] show ?thesis by auto
  qed
next
  case (advance st now sid' choice)
  then show ?case by (simp add: GameManager_make_decision_sessions)
next
  case (finish st sid' completed)
  then show ?case using end_game_session_live [of st sid' completed sid s'] by simp
next
  case (lookup st uid)
  then show ?case by (simp add: get_user_session_sessions)
next
  case (feedback st now sid' rating comments)
  then show ?case by (simp add: GameManager_record_feedback_sessions)
next
  case (sweep st now)
  then show ?case
    using cleanup_loop_live [of _ st sid s'] by (simp add: cleanup_old_sessions_def)
next
  case (message st sid' s m)
  then show ?case by (auto simp: AList.update_conv' split: if_splits)
next
  case (environment st' st)
  then show ?case by simp
qed

lemma reachable_index_one:
  "reachable st \<Longrightarrow> map_of (active_sessions st) sid = Some s \<Longrightarrow> current_decision s = 1"
proof (induction arbitrary: sid s rule: reachable.induct)
  case (init st)
  then show ?case by (simp add: initial_def)
next
  case (step st st')
  from engine_step_session [OF step.hyps(2) reachable_consistent [OF step.hyps(1)] step.prems]
  show ?case using step.IH by auto
qed

lemma reachable_bot1: "reachable bot1"
proof -
  have "reachable bot0" by (rule reachable.init) (simp add: initial_def bot0_def)
  moreover have "engine_step bot0 (snd (create_game_session ''s1'' 100 bot0 7 ''alice'' 5))"
    by (rule engine_step.start) (simp add: bot0_def)
  ultimately show ?thesis unfolding bot1_def by (rule reachable.step)
qed

text \<open>
  C4. A new session starts at decision index 1. In every state the manager can reach,
  the index of every live session lies between 1 and the number of decisions plus one,
  the session is complete exactly when the index exceeds the number of decisions, and
  no step of the manager lowers the index of a session that stays live.
\<close>

theorem current_decision_in_range:
  assumes "reachable st" and "map_of (active_sessions st) sid = Some s"
  shows "current_decision (GameSession new_id now uid ch gid chan) = 1 \<and>
     1 \<le> current_decision s \<and>
     current_decision s \<le> get_total_decisions (character s) + 1 \<and>
     (is_completed s \<longleftrightarrow> current_decision s > get_total_decisions (character s)) \<and>
     (\<forall>st' s'. engine_step st st' \<longrightarrow> map_of (active_sessions st') sid = Some s' \<longrightarrow>
         current_decision s \<le> current_decision s')"
proof -
  from assms have one: "current_decision s = 1" by (rule reachable_index_one)
  have "0 \<le> get_total_decisions (character s)" by (simp add: get_total_decisions_def)
  moreover have "\<forall>st' s'. engine_step st st' \<longrightarrow> map_of (active_sessions st') sid = Some s' \<longrightarrow>
         current_decision s \<le> current_decision s'"
  proof (intro allI impI)
    fix st' s'
    assume "engine_step st st'" and "map_of (active_sessions st') sid = Some s'"
    from engine_step_session [OF this(1) reachable_consistent [OF assms(1)] this(2)] assms(2)
    show "current_decision s \<le> current_decision s'" by auto
  qed
  ultimately show ?thesis using one by (simp add: GameSession_def is_completed_def)
qed

theorem current_decision_in_range_witness:
  "reachable bot1 \<and>
   map_of (active_sessions bot1) ''s1'' = Some (GameSession ''s1'' 100 7 alice 1 5) \<and>
   current_decision (GameSession ''s1'' 100 7 alice 1 5) = 1 \<and>
   1 \<le> current_decision (GameSession ''s1'' 100 7 alice 1 5) \<and>
   current_decision (GameSession ''s1'' 100 7 alice 1 5) \<le> get_total_decisions alice + 1 \<and>
   \<not> is_completed (GameSession ''s1'' 100 7 alice 1 5)"
proof -
  have l: "map_of (active_sessions bot1) ''s1'' = Some (GameSession ''s1'' 100 7 alice 1 5)"
    by (simp add: bot1_eq)
  from current_decision_in_range [OF reachable_bot1 l, of "''s1''" 100 7 alice 1 5]
  show ?thesis using reachable_bot1 l
    by (simp add: GameSession_def alice_total_decisions)
qed

section \<open>One session per user\<close>

lemma create_game_session_database:
  assumes r: "create_game_session new_id now st uid cid chan = (Some session, st')"
  shows "\<exists>db db'. cog_Database st = Some db \<and> cog_Database st' = Some db' \<and>
     db_completed_log db' = db_completed_log db \<and>
     (\<exists>row. db_games db' = db_games db @ [row])"
  using r
  by (auto simp: create_game_session_def Let_def end_game_session_def db_defs
      split: option.splits prod.splits)

lemma create_game_session_old_row:
  assumes r: "create_game_session new_id now st uid cid chan = (Some session, st')"
    and u: "map_of (user_sessions st) uid = Some old"
    and l: "map_of (active_sessions st) old = Some s" and ne: "old \<noteq> new_id"
    and d: "cog_Database st' = Some db'" and row: "row \<in> set (db_active_sessions db')"
  shows "as_session_id row \<noteq> old"
  using r u l ne d row
  by (auto simp: create_game_session_def Let_def end_game_session_def db_defs
      AList.update_conv' split: option.splits prod.splits)

lemma map_of_append_Some:
  "map_of xs k = Some v \<Longrightarrow> map_of (xs @ ys) k = Some v"
  by (simp add: map_add_Some_iff)


lemma reachable_one_session_per_user:
  assumes "reachable st" and "map_of (active_sessions st) sid1 = Some s1"
    and "map_of (active_sessions st) sid2 = Some s2" and "user_id s1 = user_id s2"
  shows "sid1 = sid2"
  using consistentD1 [OF reachable_consistent [OF assms(1)] assms(2)]
    consistentD1 [OF reachable_consistent [OF assms(1)] assms(3)] assms(4)
  by simp

lemma create_second_session:
  "create_game_session ''s2'' 150 bot1 7 ''alice'' 5
     = (Some (GameSession ''s2'' 150 7 alice 2 5), bot2)"
  by (simp add: bot2_def bot1_eq create_game_session_def db_defs Let_def)

lemma bot2_sessions:
  "active_sessions bot2 = [(''s2'', GameSession ''s2'' 150 7 alice 2 5)] \<and>
   user_sessions bot2 = [(7, ''s2'')]"
  by (simp add: bot2_def bot1_eq create_game_session_def db_defs Let_def
      end_game_session_def)

text \<open>
  C3, as the code has it. In a reachable state no two live sessions have the same user.
  When \<open>create_game_session\<close> succeeds with a fresh identifier, the new session is
  live, it is the one \<open>get_user_session\<close> finds, and it is the only live session of
  its user. Every session the user had before is gone from \<open>active_sessions\<close>; its row
  in the store's \<open>active_sessions\<close> table is deleted; \<open>complete_game\<close> was not called,
  so its game keeps the \<open>completed\<close> flag it had; and \<open>make_decision\<close> on its
  identifier returns the ordinary pair \<open>(0, False)\<close> and changes nothing.
\<close>

theorem create_game_session_supersedes:
  assumes re: "reachable st" and f: "new_id \<notin> fst ` set (active_sessions st)"
    and r: "create_game_session new_id now st uid cid chan = (Some session, st')"
  shows "map_of (active_sessions st') new_id = Some session \<and> user_id session = uid \<and>
     fst (get_user_session st' uid) = Some session \<and>
     (\<forall>sid s. map_of (active_sessions st') sid = Some s \<and> user_id s = uid \<longrightarrow> sid = new_id) \<and>
     (\<forall>sid1 s1 sid2 s2. map_of (active_sessions st') sid1 = Some s1 \<and>
          map_of (active_sessions st') sid2 = Some s2 \<and> user_id s1 = user_id s2 \<longrightarrow> sid1 = sid2) \<and>
     (\<forall>old s. map_of (active_sessions st) old = Some s \<and> user_id s = uid \<longrightarrow>
          map_of (active_sessions st') old = None \<and>
          GameManager_make_decision later st' old choice = (Inr (0, False), st') \<and>
          (\<exists>db db'. cog_Database st = Some db \<and> cog_Database st' = Some db' \<and>
             db_completed_log db' = db_completed_log db \<and>
             (\<forall>g. map_of (db_games db) (game_id s) = Some g \<longrightarrow>
                map_option g_completed (map_of (db_games db') (game_id s))
                  = Some (g_completed g))) \<and>
          (\<forall>db'. cog_Database st' = Some db' \<longrightarrow>
             list_all (\<lambda>row. as_session_id row \<noteq> old) (db_active_sessions db')))"
proof -
  note c = reachable_consistent [OF re]
  note m = create_game_session_maps [OF c f r]
  note ss = create_game_session_session [OF r]
  from f have n: "map_of (active_sessions st) new_id = None"
    by (simp add: map_of_eq_None_iff)
  have st': "st' = snd (create_game_session new_id now st uid cid chan)" using r by simp
  have re': "reachable st'"
    unfolding st' using re engine_step.start [OF f] by (rule reachable.step)
  have notold: "map_of (user_sessions st) uid \<noteq> Some new_id"
    using consistentD2 [OF c, of uid new_id] n by auto
  have new: "map_of (active_sessions st') new_id = Some session"
    using m(1) notold by (auto split: option.splits)
  have u': "map_of (user_sessions st') uid = Some new_id" using m(2) by simp
  have look: "fst (get_user_session st' uid) = Some session"
    using new u' by (simp add: get_user_session_def)
  have uniq: "\<forall>sid1 s1 sid2 s2. map_of (active_sessions st') sid1 = Some s1 \<and>
          map_of (active_sessions st') sid2 = Some s2 \<and> user_id s1 = user_id s2 \<longrightarrow> sid1 = sid2"
    using reachable_one_session_per_user [OF re'] by blast
  have only: "\<forall>sid s. map_of (active_sessions st') sid = Some s \<and> user_id s = uid \<longrightarrow> sid = new_id"
    using uniq new ss by blast
  have prior: "\<forall>old s. map_of (active_sessions st) old = Some s \<and> user_id s = uid \<longrightarrow>
          map_of (active_sessions st') old = None \<and>
          GameManager_make_decision later st' old choice = (Inr (0, False), st') \<and>
          (\<exists>db db'. cog_Database st = Some db \<and> cog_Database st' = Some db' \<and>
             db_completed_log db' = db_completed_log db \<and>
             (\<forall>g. map_of (db_games db) (game_id s) = Some g \<longrightarrow>
                map_option g_completed (map_of (db_games db') (game_id s))
                  = Some (g_completed g))) \<and>
          (\<forall>db'. cog_Database st' = Some db' \<longrightarrow>
             list_all (\<lambda>row. as_session_id row \<noteq> old) (db_active_sessions db'))"
  proof (intro allI impI, elim conjE)
    fix old s
    assume l: "map_of (active_sessions st) old = Some s" and us: "user_id s = uid"
    from consistentD1 [OF c l] us have uo: "map_of (user_sessions st) uid = Some old" by simp
    from l n have ne: "old \<noteq> new_id" by auto
    from m(1) uo have gone: "map_of (active_sessions st') old = None" by simp
    then have silent: "GameManager_make_decision later st' old choice = (Inr (0, False), st')"
      by (simp add: GameManager_make_decision_def)
    from create_game_session_database [OF r] obtain db db' row where
      d: "cog_Database st = Some db" "cog_Database st' = Some db'"
        "db_completed_log db' = db_completed_log db" "db_games db' = db_games db @ [row]"
      by blast
    have g: "\<forall>g. map_of (db_games db) (game_id s) = Some g \<longrightarrow>
                map_option g_completed (map_of (db_games db') (game_id s))
                  = Some (g_completed g)"
      using d(4) by (simp add: map_of_append_Some)
    have rows: "\<forall>db'. cog_Database st' = Some db' \<longrightarrow>
             list_all (\<lambda>row. as_session_id row \<noteq> old) (db_active_sessions db')"
      using create_game_session_old_row [OF r uo l ne] by (auto simp: list_all_iff)
    from gone silent d g rows
    show "map_of (active_sessions st') old = None \<and>
          GameManager_make_decision later st' old choice = (Inr (0, False), st') \<and>
          (\<exists>db db'. cog_Database st = Some db \<and> cog_Database st' = Some db' \<and>
             db_completed_log db' = db_completed_log db \<and>
             (\<forall>g. map_of (db_games db) (game_id s) = Some g \<longrightarrow>
                map_option g_completed (map_of (db_games db') (game_id s))
                  = Some (g_completed g))) \<and>
          (\<forall>db'. cog_Database st' = Some db' \<longrightarrow>
             list_all (\<lambda>row. as_session_id row \<noteq> old) (db_active_sessions db'))"
      by blast
  qed
  from new ss look only uniq prior show ?thesis by blast
qed

theorem create_game_session_supersedes_witness:
  "reachable bot1 \<and> ''s2'' \<notin> fst ` set (active_sessions bot1) \<and>
   create_game_session ''s2'' 150 bot1 7 ''alice'' 5
     = (Some (GameSession ''s2'' 150 7 alice 2 5), bot2) \<and>
   map_of (active_sessions bot1) ''s1'' = Some (GameSession ''s1'' 100 7 alice 1 5) \<and>
   map_of (active_sessions bot2) ''s2'' = Some (GameSession ''s2'' 150 7 alice 2 5) \<and>
   fst (get_user_session bot2 7) = Some (GameSession ''s2'' 150 7 alice 2 5) \<and>
   map_of (active_sessions bot2) ''s1'' = None \<and>
   GameManager_make_decision 200 bot2 ''s1'' ''a'' = (Inr (0, False), bot2)"
proof -
  have f: "''s2'' \<notin> fst ` set (active_sessions bot1)" by (simp add: bot1_eq)
  have l: "map_of (active_sessions bot1) ''s1'' = Some (GameSession ''s1'' 100 7 alice 1 5)"
    by (simp add: bot1_eq)
  have u: "user_id (GameSession ''s1'' 100 7 alice 1 5) = 7" by (simp add: GameSession_def)
  note t = create_game_session_supersedes [OF reachable_bot1 f create_second_session,
      of 200 "''a''"]
  from t have a: "map_of (active_sessions bot2) ''s2'' = Some (GameSession ''s2'' 150 7 alice 2 5)"
    and b: "fst (get_user_session bot2 7) = Some (GameSession ''s2'' 150 7 alice 2 5)"
    by simp_all
  from t l u have c: "map_of (active_sessions bot2) ''s1'' = None \<and>
      GameManager_make_decision 200 bot2 ''s1'' ''a'' = (Inr (0, False), bot2)"
    by blast
  from reachable_bot1 f create_second_session l a b c show ?thesis by simp
qed

text \<open>
  The claim C3 as stated has the later \<open>advance\<close> on the superseded session fail with
  \<open>SessionNotFound\<close>. After user 7 starts a second game, \<open>make_decision\<close> on the first
  session's identifier returns normally, with the pair \<open>(0, False)\<close>.
\<close>

theorem superseded_session_counterexample:
  "fst (create_game_session ''s2'' 150 bot1 7 ''alice'' 5)
     = Some (GameSession ''s2'' 150 7 alice 2 5) \<and>
   map_of (active_sessions bot2) ''s1'' = None \<and>
   fst (GameManager_make_decision 200 bot2 ''s1'' ''a'') = Inr (0, False)"
  by (simp add: create_second_session bot2_sessions GameManager_make_decision_def)

section \<open>Validation and loading\<close>

lemma validate_decisions_iff:
  "validate_decisions ds = list_all (\<lambda>(k, d). decision_well_formed d) ds"
proof (induction ds)
  case Nil
  then show ?case by simp
next
  case (Cons kd ds)
  obtain k d where kd: "kd = (k, d)" by (cases kd)
  show ?case unfolding kd
    using Cons.IH
    by (auto simp: REQUIRED_DECISION_FIELDS_def decision_has_field_def decision_well_formed_def
        Let_def map_of_eq_None_iff split: option.splits)
qed

lemma validate_character_iff:
  "fst (validate_character data) =
     (data_name data \<noteq> None \<and> data_title data \<noteq> None \<and> data_starting_year data \<noteq> None \<and>
      data_initial_capital data \<noteq> None \<and> data_key_principles data \<noteq> None \<and>
      data_analysis_templates data \<noteq> None \<and>
      (case data_decisions data of
         None \<Rightarrow> False
       | Some ds \<Rightarrow> ds \<noteq> [] \<and> list_all (\<lambda>(k, d). decision_well_formed d) ds))"
  by (auto simp: validate_character_def REQUIRED_CHARACTER_FIELDS_def data_has_field_def
      Let_def validate_decisions_iff split: option.splits)

lemma validate_character_warning:
  "snd (validate_character data) =
     (fst (validate_character data) \<and>
      (data_analysis_templates data = Some None \<or>
       data_analysis_templates data = Some (Some [])))"
  by (auto simp: validate_character_def REQUIRED_CHARACTER_FIELDS_def data_has_field_def
      Let_def split: option.splits)

lemma load_files_filter:
  "load_files files characters = load_files (filter (\<lambda>(cid, file). accepted file) files) characters"
proof (induction files arbitrary: characters)
  case Nil
  then show ?case by simp
next
  case (Cons f files)
  obtain cid yf where f: "f = (cid, yf)" by (cases f)
  show ?case unfolding f using Cons.IH
    by (cases yf) (simp_all add: accepted_def)
qed

text \<open>
  A decision key that \<open>isdigit()\<close> takes for a number and \<open>int()\<close> does not, such as the
  superscript two, makes the sort key raise \<open>ValueError\<close>: the document passes
  validation, the constructor raises, and \<open>_load_all_characters\<close> skips the file.
\<close>

lemma decision_sort_key_superscript:
  "decision_sort_key (StrKey [CHR 0xB2], d) = Inl ValueError"
  by (simp add: str_isdigit_def is_digit_char_def is_decimal_char_def int_of_str_def)

lemma superscript_key_not_loaded:
  "fst (validate_character
     (alice_data\<lparr> data_decisions := Some
        [(StrKey [CHR 0xB2], mk_decision 1990 [(''a'', mk_choice ''first'' 10)] ''a'')] \<rparr>)) \<and>
   load_all_characters (Some [(''alice'', Parsed
     (alice_data\<lparr> data_decisions := Some
        [(StrKey [CHR 0xB2], mk_decision 1990 [(''a'', mk_choice ''first'' 10)] ''a'')] \<rparr>))])
     = []"
proof -
  have v: "fst (validate_character
     (alice_data\<lparr> data_decisions := Some
        [(StrKey [CHR 0xB2], mk_decision 1990 [(''a'', mk_choice ''first'' 10)] ''a'')] \<rparr>))"
    by (simp add: validate_character_iff alice_data_def decision_well_formed_def
        mk_decision_def mk_choice_def)
  have c: "Character ''alice''
     (alice_data\<lparr> data_decisions := Some
        [(StrKey [CHR 0xB2], mk_decision 1990 [(''a'', mk_choice ''first'' 10)] ''a'')] \<rparr>)
     = Inl ValueError"
    by (simp add: Character_def Let_def decision_sort_key_superscript
        del: decision_sort_key.simps)
  from v c show ?thesis by (simp add: load_all_characters_def)
qed

text \<open>
  C9, as the code has it. A character document is accepted exactly when all seven
  required top-level keys are present, \<open>analysis_templates\<close> among them, \<open>decisions\<close> is
  not empty, and every decision has year, context, question, choices and correct_choice,
  has at least one choice, and names a correct choice that is among its choices. A
  document whose \<open>analysis_templates\<close> is present but empty or null is accepted, with a
  warning.
  Loading a listing gives the same table as loading only its accepted files: a file
  that is rejected or unreadable changes nothing for the others.
\<close>

theorem validate_character_accepts:
  "fst (validate_character data) =
     (data_name data \<noteq> None \<and> data_title data \<noteq> None \<and> data_starting_year data \<noteq> None \<and>
      data_initial_capital data \<noteq> None \<and> data_key_principles data \<noteq> None \<and>
      data_analysis_templates data \<noteq> None \<and>
      (case data_decisions data of
         None \<Rightarrow> False
       | Some ds \<Rightarrow> ds \<noteq> [] \<and> list_all (\<lambda>(k, d). decision_well_formed d) ds)) \<and>
   snd (validate_character data) =
     (fst (validate_character data) \<and>
      (data_analysis_templates data = Some None \<or>
       data_analysis_templates data = Some (Some []))) \<and>
   load_files files characters =
     load_files (filter (\<lambda>(cid, yf). accepted yf) files) characters"
  using validate_character_iff [of data] validate_character_warning [of data]
    load_files_filter [of files characters]
  by simp

text \<open>
  The claim C9 as stated has a file without \<open>analysis_templates\<close> accepted. The scenario
  document is accepted; the same document without that key is rejected, and loading
  it alone gives an empty table.
\<close>

theorem missing_analysis_templates_counterexample:
  "fst (validate_character alice_data) \<and>
   \<not> fst (validate_character (alice_data\<lparr> data_analysis_templates := None \<rparr>)) \<and>
   load_all_characters
     (Some [(''alice'', Parsed (alice_data\<lparr> data_analysis_templates := None \<rparr>))]) = []"
  by (simp add: validate_character_iff alice_data_def decision_well_formed_def mk_decision_def
      mk_choice_def load_all_characters_def)

section \<open>A game is completed at most once\<close>






































section \<open>The analysis\<close>

lemma highest_choice_score_fold:
  "0 \<le> h \<Longrightarrow>
     highest_choice_score h choices =
       fold max (map (\<lambda>(k, cd). case choice_score cd of None \<Rightarrow> 0 | Some sc \<Rightarrow> sc) choices) h"
proof (induction choices arbitrary: h)
  case Nil
  then show ?case by simp
next
  case (Cons kc choices)
  obtain k cd where kc: "kc = (k, cd)" by (cases kc)
  show ?case
  proof (cases "choice_score cd")
    case None
    with Cons.prems have "max 0 h = h" by simp
    with None Cons.IH [OF Cons.prems] show ?thesis by (simp add: kc)
  next
    case (Some sc)
    have "0 \<le> (if sc > h then sc else h)" using Cons.prems by simp
    from Cons.IH [OF this] Some show ?thesis by (simp add: kc max_def)
  qed
qed

lemma highest_choice_score_floored:
  "d_choices d = Some choices \<Longrightarrow>
     highest_choice_score 0 choices = Max (insert 0 (set (choice_scores d)))"
proof -
  assume c: "d_choices d = Some choices"
  have "Max (insert 0 (set (choice_scores d))) = Max (set (0 # choice_scores d))" by simp
  also have "\<dots> = fold max (choice_scores d) 0" by (rule Max.set_eq_fold)
  finally show ?thesis using c by (simp add: highest_choice_score_fold choice_scores_def)
qed

lemma decision_max_floored: "decision_max d = Max (insert 0 (set (choice_scores d)))"
proof (cases "d_choices d")
  case None
  then show ?thesis by (simp add: decision_max_def choice_scores_def)
next
  case (Some choices)
  then show ?thesis by (simp add: decision_max_def highest_choice_score_floored)
qed

lemma max_score_loop_sum:
  "max_score_loop c is acc =
     acc + (\<Sum>i\<leftarrow>is. case get_decision c i of None \<Rightarrow> 0 | Some d \<Rightarrow> decision_max d)"
  by (induction "is" arbitrary: acc) (auto simp: decision_max_def split: option.splits)

lemma upto_from_one: "[1 .. int n] = map (\<lambda>k. int k + 1) [0 ..< n]"
proof (induction n)
  case 0
  then show ?case by simp
next
  case (Suc n)
  have "[1 .. int (Suc n)] = [1 .. int n] @ [int n + 1]"
    using upto_rec2 [of 1 "int (Suc n)"] by (simp add: add.commute)
  with Suc show ?case by simp
qed

lemma decisions_by_number:
  "map (\<lambda>i. case get_decision c i of None \<Rightarrow> 0 | Some d \<Rightarrow> decision_max d)
       [1 .. get_total_decisions c]
     = map (\<lambda>kd. decision_max (snd kd)) (sorted_decisions c)"
proof -
  have "map (\<lambda>i. case get_decision c i of None \<Rightarrow> 0 | Some d \<Rightarrow> decision_max d)
       [1 .. get_total_decisions c]
      = map (\<lambda>k. decision_max (snd (sorted_decisions c ! k))) [0 ..< length (sorted_decisions c)]"
    by (simp add: get_total_decisions_def upto_from_one get_decision_def comp_def)
  also have "\<dots> = map (\<lambda>kd. decision_max (snd kd)) (map (\<lambda>k. sorted_decisions c ! k) [0 ..< length (sorted_decisions c)])"
    by (simp add: comp_def)
  also have "\<dots> = map (\<lambda>kd. decision_max (snd kd)) (sorted_decisions c)"
    by (simp only: map_nth)
  finally show ?thesis .
qed

lemma get_max_possible_score_floored:
  "get_max_possible_score s = floored_max_possible_score (character s)"
  by (simp add: get_max_possible_score_def floored_max_possible_score_def max_score_loop_sum
      decisions_by_number decision_max_floored comp_def)

lemma is_correct_choice_iff:
  "is_correct_choice c n choice = (correct_choice_of c n = Some choice)"
  by (auto simp: is_correct_choice_def correct_choice_of_def split: option.splits)

lemma count_correct_filter:
  "count_correct c made n =
     n + int (length (filter (\<lambda>(num, choice). correct_choice_of c num = Some choice) made))"
  by (induction made arbitrary: n) (auto simp: is_correct_choice_iff)

lemma Character_get_analysis_tier:
  "analysis_templates c = Some templates \<Longrightarrow>
     Character_get_analysis c p =
       Inr (case map_of templates (tier p) of
              None \<Rightarrow> default_template (default_blurb (tier p))
            | Some t \<Rightarrow> t)"
  by (auto simp: Character_get_analysis_def tier_def default_blurb_def split: option.splits)

text \<open>
  What \<open>get_analysis\<close> reports for a character whose \<open>analysis_templates\<close> is a dict: the
  session's score; as maximal score the sum over all decisions of the highest choice
  score of the decision, taken not below 0; as percentage the score divided by the
  maximal score times 100, and 0 when the maximal score is 0; the text and principles
  of the template of the percentage's tier, or the built-in blurb and no principles
  when the character has no template for the tier; as correct decisions the number of
  recorded decisions whose choice is the decision's correct choice; and as accuracy
  the correct decisions divided by the number of decisions times 100, and 0 when the
  character has no decision.
\<close>

lemma GameSession_get_analysis_report:
  assumes "analysis_templates (character s) = Some templates"
  shows "GameSession_get_analysis s = Inr
     \<lparr> an_text =
         (case map_of templates (tier (get_score_percentage s)) of
            None \<Rightarrow> default_blurb (tier (get_score_percentage s))
          | Some t \<Rightarrow> (case t_text t of None \<Rightarrow> [] | Some txt \<Rightarrow> txt)),
       an_principles =
         (case map_of templates (tier (get_score_percentage s)) of
            None \<Rightarrow> []
          | Some t \<Rightarrow> (case t_principles t of None \<Rightarrow> [] | Some ps \<Rightarrow> ps)),
       an_score = total_score s,
       an_max_score = floored_max_possible_score (character s),
       an_percentage =
         (if floored_max_possible_score (character s) = 0 then 0
          else real_of_int (total_score s)
                 / real_of_int (floored_max_possible_score (character s)) * 100),
       an_correct_decisions =
         int (length (filter (\<lambda>(num, choice). correct_choice_of (character s) num = Some choice)
                        (decisions_made s))),
       an_total_decisions = get_total_decisions (character s),
       an_accuracy =
         (if get_total_decisions (character s) = 0 then 0
          else real_of_int
                 (int (length (filter
                    (\<lambda>(num, choice). correct_choice_of (character s) num = Some choice)
                    (decisions_made s))))
                 / real_of_int (get_total_decisions (character s)) * 100) \<rparr>"
proof -
  have t: "0 \<le> get_total_decisions (character s)" by (simp add: get_total_decisions_def)
  show ?thesis
    using t assms
    by (simp add: GameSession_get_analysis_def Let_def get_score_percentage_def
        get_max_possible_score_floored Character_get_analysis_tier count_correct_filter
        default_template_def split: option.splits)
qed

text \<open>
  A character whose \<open>analysis_templates\<close> is \<open>None\<close> (a YAML null, which validation
  accepts with the warning) makes \<open>get_analysis\<close> raise.
\<close>

lemma GameSession_get_analysis_null_templates:
  "analysis_templates (character s) = None \<Longrightarrow>
     GameSession_get_analysis s = Inl AttributeError"
  by (simp add: GameSession_get_analysis_def Character_get_analysis_def Let_def)

text \<open>
  Such a character is loaded: a document whose \<open>analysis_templates\<close> is null passes
  validation with the warning and the constructor keeps the \<open>None\<close>.
\<close>

lemma null_analysis_templates_loaded:
  "validate_character (alice_data\<lparr> data_analysis_templates := Some None \<rparr>) = (True, True) \<and>
   map_option analysis_templates
     (map_of (load_all_characters
        (Some [(''alice'', Parsed (alice_data\<lparr> data_analysis_templates := Some None \<rparr>))]))
        ''alice'') = Some None"
proof -
  have v: "fst (validate_character (alice_data\<lparr> data_analysis_templates := Some None \<rparr>))"
    by (simp add: validate_character_iff alice_data_def decision_well_formed_def
        mk_decision_def mk_choice_def)
  with validate_character_warning [of "alice_data\<lparr> data_analysis_templates := Some None \<rparr>"]
  have w: "snd (validate_character (alice_data\<lparr> data_analysis_templates := Some None \<rparr>))"
    by simp
  have "\<exists>c. Character ''alice'' (alice_data\<lparr> data_analysis_templates := Some None \<rparr>) = Inr c \<and>
      analysis_templates c = None"
    by (simp add: Character_def Let_def alice_data_def)
  then obtain c where c: "Character ''alice''
      (alice_data\<lparr> data_analysis_templates := Some None \<rparr>) = Inr c"
      "analysis_templates c = None" by blast
  from v c have "map_option analysis_templates
     (map_of (load_all_characters
        (Some [(''alice'', Parsed (alice_data\<lparr> data_analysis_templates := Some None \<rparr>))]))
        ''alice'') = Some None"
    by (simp add: load_all_characters_def)
  with v w show ?thesis by (simp add: prod_eq_iff)
qed

lemma bob_sorted: "sorted_decisions bob = [(IntKey 1, mk_decision 2000
             [(''a'', mk_choice ''sell'' (- 5)), (''b'', mk_choice ''hold'' (- 2))] ''b'')]"
  by (simp add: bob_def bob_data_def Character_def Let_def)

lemma bob_choice_scores:
  "map (\<lambda>d. choice_scores d) (map snd (sorted_decisions bob)) = [[- 5, - 2]]"
  by (simp add: bob_sorted choice_scores_def mk_decision_def mk_choice_def)

lemma bob_spec_max: "spec_max_possible_score bob = - 2"
proof -
  have "spec_max_possible_score bob
      = sum_list (map (\<lambda>xs. Max (set xs)) (map (\<lambda>d. choice_scores d) (map snd (sorted_decisions bob))))"
    by (simp add: spec_max_possible_score_def comp_def)
  also have "\<dots> = Max (set [- 5, - 2 :: int])" by (simp only: bob_choice_scores list.map sum_list.Cons sum_list.Nil add_0_right)
  also have "\<dots> = - 2" by simp
  finally show ?thesis .
qed

lemma bob_floored_max: "floored_max_possible_score bob = 0"
proof -
  have "floored_max_possible_score bob
      = sum_list (map (\<lambda>xs. Max (insert 0 (set xs))) (map (\<lambda>d. choice_scores d) (map snd (sorted_decisions bob))))"
    by (simp add: floored_max_possible_score_def comp_def)
  also have "\<dots> = Max (insert 0 (set [- 5, - 2 :: int]))" by (simp only: bob_choice_scores list.map sum_list.Cons sum_list.Nil add_0_right)
  also have "\<dots> = 0" by simp
  finally show ?thesis .
qed

lemma bob_templates: "analysis_templates bob = Some []"
  by (simp add: bob_def bob_data_def Character_def Let_def)

lemma bob_total_decisions: "get_total_decisions bob = 1"
  by (simp add: get_total_decisions_def bob_sorted)

text \<open>
  C8. The claim: the maximal score that \<open>get_analysis\<close> reports is the sum over all
  decisions of the highest choice score of the decision. The code on a new session of
  the valid character whose only decision has the scores -5 and -2: the reported
  maximal score is 0, where the sum of the highest scores is -2. The loop that is to
  "find the highest scoring choice" starts its running maximum at 0.
\<close>

theorem get_max_possible_score_negative_scores:
  "fst (validate_character bob_data) \<and>
   Character ''bob'' bob_data = Inr bob \<and>
   GameSession_get_analysis (GameSession ''s3'' 0 7 bob 1 5) = Inr
     \<lparr> an_text = ''Needs improvement.'', an_principles = [], an_score = 0,
       an_max_score = 0, an_percentage = 0, an_correct_decisions = 0,
       an_total_decisions = 1, an_accuracy = 0 \<rparr> \<and>
   spec_max_possible_score bob = - 2"
proof -
  have "fst (validate_character bob_data)"
    by (simp add: validate_character_iff bob_data_def decision_well_formed_def mk_decision_def
      mk_choice_def)
  moreover have "Character ''bob'' bob_data = Inr bob"
    by (simp add: bob_def Character_def bob_data_def Let_def)
  moreover have "GameSession_get_analysis (GameSession ''s3'' 0 7 bob 1 5) = Inr
     \<lparr> an_text = ''Needs improvement.'', an_principles = [], an_score = 0,
       an_max_score = 0, an_percentage = 0, an_correct_decisions = 0,
       an_total_decisions = 1, an_accuracy = 0 \<rparr>"
    by (simp add: GameSession_get_analysis_def Let_def get_score_percentage_def
        get_max_possible_score_floored GameSession_def bob_floored_max bob_templates
        Character_get_analysis_def default_template_def bob_total_decisions)
  ultimately show ?thesis using bob_spec_max by simp
qed

text \<open>
  The two scenarios of the specification, played on the session itself: "a" then "b"
  scores 30 of 30, and "b" then "a" scores 9 of 30.
\<close>

lemma alice_choice_scores:
  "map (\<lambda>d. choice_scores d) (map snd (sorted_decisions alice)) = [[10, 4], [5, 20]]"
  by (simp add: alice_sorted_decisions choice_scores_def mk_decision_def mk_choice_def)

lemma alice_floored_max: "floored_max_possible_score alice = 30"
proof -
  have "floored_max_possible_score alice
      = sum_list (map (\<lambda>xs. Max (insert 0 (set xs)))
          (map (\<lambda>d. choice_scores d) (map snd (sorted_decisions alice))))"
    by (simp add: floored_max_possible_score_def comp_def)
  also have "\<dots> = sum_list (map (\<lambda>xs. Max (insert 0 (set xs))) [[10, 4], [5, 20 :: int]])"
    by (simp only: alice_choice_scores)
  also have "\<dots> = 30" by simp
  finally show ?thesis .
qed

lemma played_a_b:
  "played ''a'' ''b'' =
     \<lparr> session_id = ''s1'', user_id = 7, character = alice, game_id = 1, channel_id = 5,
       current_decision = 3, total_score = 30, decisions_made = [(1, ''a''), (2, ''b'')],
       last_activity = 300, message_id = None \<rparr>"
  by (simp add: played_def GameSession_make_decision_def GameSession_def Let_def
      get_choice_score_def get_decision_def alice_sorted_decisions mk_decision_def mk_choice_def)

lemma played_b_a:
  "played ''b'' ''a'' =
     \<lparr> session_id = ''s1'', user_id = 7, character = alice, game_id = 1, channel_id = 5,
       current_decision = 3, total_score = 9, decisions_made = [(1, ''b''), (2, ''a'')],
       last_activity = 300, message_id = None \<rparr>"
  by (simp add: played_def GameSession_make_decision_def GameSession_def Let_def
      get_choice_score_def get_decision_def alice_sorted_decisions mk_decision_def mk_choice_def)

lemma alice_templates: "analysis_templates alice = Some []"
  by (simp add: alice_def Character_def alice_data_def Let_def)

lemma scenario_a_then_b:
  "GameSession_get_analysis (played ''a'' ''b'') = Inr
     \<lparr> an_text = ''Excellent performance!'', an_principles = [], an_score = 30,
       an_max_score = 30, an_percentage = 100, an_correct_decisions = 2,
       an_total_decisions = 2, an_accuracy = 100 \<rparr>"
  by (simp add: played_a_b GameSession_get_analysis_def Let_def get_score_percentage_def
      get_max_possible_score_floored alice_floored_max Character_get_analysis_def
      alice_templates default_template_def alice_total_decisions is_correct_choice_def
      get_decision_def alice_sorted_decisions mk_decision_def)

lemma scenario_b_then_a:
  "GameSession_get_analysis (played ''b'' ''a'') = Inr
     \<lparr> an_text = ''Needs improvement.'', an_principles = [], an_score = 9,
       an_max_score = 30, an_percentage = 30, an_correct_decisions = 0,
       an_total_decisions = 2, an_accuracy = 0 \<rparr>"
  by (simp add: played_b_a GameSession_get_analysis_def Let_def get_score_percentage_def
      get_max_possible_score_floored alice_floored_max Character_get_analysis_def
      alice_templates default_template_def alice_total_decisions is_correct_choice_def
      get_decision_def alice_sorted_decisions mk_decision_def)

end
